theory Spec2Isabelle
  imports Main
begin

text \<open>
  A model of the inventory core of \<open>app.py\<close>: the two tables and the connections on
  them, the import of a data frame (\<open>upsert_items_from_df\<close>), adding and removing stock
  (\<open>add_stock\<close>, \<open>remove_stock_by_id\<close>, \<open>remove_stock_by_signature\<close>), the export frame
  (\<open>get_items_df\<close>, \<open>backup_db_to_excel\<close>) and the reading of a spreadsheet
  (\<open>read_excel_to_df\<close>). The destructive \<open>replace_db_with_df\<close> and the page itself are
  left out, except for the import of an uploaded file in merge mode. Each function of the
  source is one definition of the same name; a function that reads or writes the database
  takes the store and returns the store that it leaves.
\<close>

section \<open>Errors\<close>

text \<open>
  The exceptions that the modelled code raises. A spreadsheet cell is blank (\<open>NaN\<close>), a
  number or a text; numbers are integers here (floating-point cells are outside the
  model).

  \<^item> \<open>ExcelMustContainColumns required found\<close> is the \<open>ValueError\<close> of
    \<open>read_excel_to_df\<close>, \<open>"Excel must contain columns: {required}. Found: {list(df.columns)}"\<close>;
  \<^item> \<open>InvalidLiteralForInt\<close> is the \<open>ValueError\<close> that \<open>int()\<close> raises on a cell;
  \<^item> \<open>KeyError\<close> is a failed lookup in a dict or a data frame;
  \<^item> \<open>ItemIdNotFound\<close>, \<open>ItemNotFoundBySignature\<close> and \<open>NotEnoughStock cur_qty qty\<close> are
    the \<open>ValueError\<close>s of the removal functions: \<open>"Item ID not found."\<close>,
    \<open>"Item not found by signature."\<close> and
    \<open>"Not enough stock. Current: {cur_qty}, requested: {qty}"\<close>.
\<close>

datatype cell = NaN | IntCell int | StrCell string

datatype error =
    ExcelMustContainColumns "string list" "string list"
  | InvalidLiteralForInt cell
  | KeyError string
  | ItemIdNotFound
  | ItemNotFoundBySignature
  | NotEnoughStock int int

section \<open>The persistent store of app.py\<close>

text \<open>
  The application keeps two SQLite tables (\<open>init_db\<close>): \<open>items\<close>, whose \<open>id\<close> is an
  \<open>INTEGER PRIMARY KEY\<close>, and the append-only \<open>transactions\<close>. A row of \<open>items\<close> is the
  record \<open>item\<close>; the text columns are nullable, so they are options, \<open>None\<close> being SQL
  \<open>NULL\<close>. The quantity column is only ever written from a Python \<open>int\<close>, so it is an
  \<open>int\<close>. Python integers are unbounded and are modelled as \<open>int\<close>; the 64-bit range of
  an SQLite \<open>INTEGER\<close> is not part of the model. The autoincremented key of a
  transaction plays no part below: the log is the list of its rows in insertion order.

  The \<open>items\<close> list is kept in the order of the table's B-tree, ascending \<open>id\<close>, which is
  the order in which a scan without \<open>ORDER BY\<close> yields rows and so decides which row
  \<open>fetchone()\<close> returns.
\<close>

record item =
  item_id :: int
  tyre_size :: "string option"
  company :: "string option"
  series :: "string option"
  qty :: int
  last_updated :: string

record transaction =
  tx_item_id :: int
  tx_tyre_size :: "string option"
  tx_company :: "string option"
  tx_series :: "string option"
  change :: int
  reason :: string
  timestamp :: string
  tx_note :: "string option"

record db =
  items :: "item list"
  transactions :: "transaction list"

text \<open>\<open>init_db\<close> on a fresh database file: both tables exist and are empty.\<close>

definition init_db :: db where
  "init_db = \<lparr>items = [], transactions = []\<rparr>"

subsection \<open>Connections and transactions\<close>

text \<open>
  Every operation opens its own connection (\<open>get_conn\<close>). With the default isolation
  level of Python's \<open>sqlite3\<close>, the first \<open>INSERT\<close> or \<open>UPDATE\<close> on a connection opens a
  transaction; its writes are visible on that connection only, until \<open>conn.commit()\<close>.
  A connection that is closed, or dropped by an exception, without a commit loses them.
  So a connection carries the committed database and its own pending view of it, and the
  database that an operation leaves behind is the committed one.
\<close>

record conn =
  committed :: db
  pending :: db

definition get_conn :: "db \<Rightarrow> conn" where
  "get_conn d = \<lparr>committed = d, pending = d\<rparr>"

definition commit :: "conn \<Rightarrow> conn" where
  "commit c = c\<lparr>committed := pending c\<rparr>"

definition close :: "conn \<Rightarrow> db" where
  "close c = committed c"

subsection \<open>The SQL statements\<close>

text \<open>\<open>SELECT ... FROM items WHERE id = ?\<close> followed by \<open>fetchone()\<close>.\<close>

definition select_by_id :: "int \<Rightarrow> conn \<Rightarrow> item option" where
  "select_by_id i c = find (\<lambda>r. item_id r = i) (items (pending c))"

text \<open>
  SQL conditions are three-valued: \<open>None\<close> is the unknown value that a comparison with
  \<open>NULL\<close> yields, and \<open>WHERE\<close> keeps a row only when its condition is true.
\<close>

definition sql_eq :: "'a option \<Rightarrow> 'a option \<Rightarrow> bool option" where
  "sql_eq a b = (case a of None \<Rightarrow> None | Some x \<Rightarrow> (case b of None \<Rightarrow> None | Some y \<Rightarrow> Some (x = y)))"

definition sql_is_null :: "'a option \<Rightarrow> bool option" where
  "sql_is_null a = Some (a = None)"

fun sql_and :: "bool option \<Rightarrow> bool option \<Rightarrow> bool option" where
  "sql_and (Some False) _ = Some False"
| "sql_and _ (Some False) = Some False"
| "sql_and (Some True) (Some True) = Some True"
| "sql_and _ _ = None"

fun sql_or :: "bool option \<Rightarrow> bool option \<Rightarrow> bool option" where
  "sql_or (Some True) _ = Some True"
| "sql_or _ (Some True) = Some True"
| "sql_or (Some False) (Some False) = Some False"
| "sql_or _ _ = None"

text \<open>
  The condition of both signature queries:
  \<^verbatim>\<open>tyre_size = ? AND (company = ? OR (company IS NULL AND ? IS NULL))
                AND (series = ? OR (series IS NULL AND ? IS NULL))\<close>
\<close>

definition signature_where :: "string option \<Rightarrow> string option \<Rightarrow> string option \<Rightarrow> item \<Rightarrow> bool option" where
  "signature_where size_p company_p series_p r =
     sql_and
       (sql_and (sql_eq (tyre_size r) size_p)
          (sql_or (sql_eq (company r) company_p)
             (sql_and (sql_is_null (company r)) (sql_is_null company_p))))
       (sql_or (sql_eq (series r) series_p)
          (sql_and (sql_is_null (series r)) (sql_is_null series_p)))"

definition select_by_signature :: "string option \<Rightarrow> string option \<Rightarrow> string option \<Rightarrow> conn \<Rightarrow> item option" where
  "select_by_signature size_p company_p series_p c =
     find (\<lambda>r. signature_where size_p company_p series_p r = Some True) (items (pending c))"

text \<open>\<open>UPDATE items SET ... WHERE id = ?\<close>: every row with that id is rewritten.\<close>

definition update_where_id :: "int \<Rightarrow> (item \<Rightarrow> item) \<Rightarrow> conn \<Rightarrow> conn" where
  "update_where_id i f c =
     c\<lparr>pending := (pending c)\<lparr>items := map (\<lambda>r. if item_id r = i then f r else r) (items (pending c))\<rparr>\<rparr>"

text \<open>
  \<open>INSERT INTO items (id, ...)\<close> with a given id. The source runs it only after a
  \<open>SELECT\<close> has found no row with that id, so the primary key cannot be violated.
  The row takes its place in the order of the ids.
\<close>

fun insert_sorted :: "item \<Rightarrow> item list \<Rightarrow> item list" where
  "insert_sorted r [] = [r]"
| "insert_sorted r (x # xs) = (if item_id r < item_id x then r # x # xs else x # insert_sorted r xs)"

definition insert_item :: "item \<Rightarrow> conn \<Rightarrow> conn" where
  "insert_item r c = c\<lparr>pending := (pending c)\<lparr>items := insert_sorted r (items (pending c))\<rparr>\<rparr>"

text \<open>
  \<open>INSERT INTO items\<close> without an id: SQLite gives the row one more than the largest id
  in the table, and 1 in an empty table; \<open>cur.lastrowid\<close> is that id.
\<close>

definition next_rowid :: "item list \<Rightarrow> int" where
  "next_rowid xs = (if xs = [] then 1 else Max (set (map item_id xs)) + 1)"

definition lastrowid :: "conn \<Rightarrow> int" where
  "lastrowid c = next_rowid (items (pending c))"

text \<open>\<open>INSERT INTO transactions (...)\<close>.\<close>

definition insert_transaction :: "transaction \<Rightarrow> conn \<Rightarrow> conn" where
  "insert_transaction t c =
     c\<lparr>pending := (pending c)\<lparr>transactions := transactions (pending c) @ [t]\<rparr>\<rparr>"

section \<open>Import: \<open>upsert_items_from_df\<close>\<close>

text \<open>
  A row of the canonical data frame (columns \<open>id\<close>, \<open>tyre_size\<close>, \<open>company\<close>, \<open>series\<close>,
  \<open>qty\<close>). The time stamp \<open>datetime.utcnow().isoformat()\<close> is read once per call and is a
  parameter \<open>ts\<close> of every operation.
\<close>

record canonical_row =
  row_id :: "int option"
  row_tyre_size :: "string option"
  row_company :: "string option"
  row_series :: "string option"
  row_qty :: int

text \<open>
  The body of the first loop, over the rows that have an id. (The loop runs over the
  frame filtered by \<open>df_in['id'].notna()\<close>, so the branch for a row without id is never
  taken.)
\<close>

definition upsert_row_with_id :: "string \<Rightarrow> canonical_row \<Rightarrow> conn \<Rightarrow> conn" where
  "upsert_row_with_id ts r c =
     (case row_id r of
        None \<Rightarrow> c
      | Some i \<Rightarrow>
          (let c1 =
             (case select_by_id i c of
                Some found \<Rightarrow>
                  update_where_id i
                    (\<lambda>x. x\<lparr>tyre_size := row_tyre_size r, company := row_company r,
                            series := row_series r, qty := qty found + row_qty r,
                            last_updated := ts\<rparr>) c
              | None \<Rightarrow>
                  insert_item
                    \<lparr>item_id = i, tyre_size = row_tyre_size r, company = row_company r,
                     series = row_series r, qty = row_qty r, last_updated = ts\<rparr> c)
           in insert_transaction
                \<lparr>tx_item_id = i, tx_tyre_size = row_tyre_size r, tx_company = row_company r,
                 tx_series = row_series r, change = row_qty r, reason = ''import_upsert'',
                 timestamp = ts, tx_note = Some ''import from excel''\<rparr> c1))"

text \<open>The body of the second loop, over the rows without id, matched by signature.\<close>

definition upsert_row_no_id :: "string \<Rightarrow> canonical_row \<Rightarrow> conn \<Rightarrow> conn" where
  "upsert_row_no_id ts r c =
     (case select_by_signature (row_tyre_size r) (row_company r) (row_series r) c of
        Some found \<Rightarrow>
          insert_transaction
            \<lparr>tx_item_id = item_id found, tx_tyre_size = row_tyre_size r,
             tx_company = row_company r, tx_series = row_series r, change = row_qty r,
             reason = ''import_merge_signature'', timestamp = ts,
             tx_note = Some ''imported by signature''\<rparr>
            (update_where_id (item_id found)
               (\<lambda>x. x\<lparr>qty := qty found + row_qty r, last_updated := ts\<rparr>) c)
      | None \<Rightarrow>
          (let new_id = lastrowid c in
           insert_transaction
             \<lparr>tx_item_id = new_id, tx_tyre_size = row_tyre_size r,
              tx_company = row_company r, tx_series = row_series r, change = row_qty r,
              reason = ''import_new'', timestamp = ts, tx_note = Some ''new row from excel''\<rparr>
             (insert_item
                \<lparr>item_id = new_id, tyre_size = row_tyre_size r, company = row_company r,
                 series = row_series r, qty = row_qty r, last_updated = ts\<rparr> c)))"

text \<open>
  The import: one connection, the rows with an id first, then the rows without, and one
  \<open>conn.commit()\<close> after the second loop.
\<close>

definition rows_with_id :: "canonical_row list \<Rightarrow> canonical_row list" where
  "rows_with_id df_in = filter (\<lambda>r. row_id r \<noteq> None) df_in"

definition rows_no_id :: "canonical_row list \<Rightarrow> canonical_row list" where
  "rows_no_id df_in = filter (\<lambda>r. row_id r = None) df_in"

definition upsert_loops :: "string \<Rightarrow> canonical_row list \<Rightarrow> conn \<Rightarrow> conn" where
  "upsert_loops ts df_in c =
     fold (upsert_row_no_id ts) (rows_no_id df_in)
       (fold (upsert_row_with_id ts) (rows_with_id df_in) c)"

definition upsert_items_from_df :: "string \<Rightarrow> canonical_row list \<Rightarrow> db \<Rightarrow> db" where
  "upsert_items_from_df ts df_in d = close (commit (upsert_loops ts df_in (get_conn d)))"

section \<open>Adding and removing stock\<close>

text \<open>
  Each function returns its result together with the store that it leaves. A function
  that raises before it has written returns the store it found.
\<close>

definition add_stock ::
  "string \<Rightarrow> int option \<Rightarrow> string option \<Rightarrow> string option \<Rightarrow> string option \<Rightarrow> int \<Rightarrow> string option
     \<Rightarrow> db \<Rightarrow> int \<times> db" where
  "add_stock ts item_id_p size_p company_p series_p qty_p note_p d =
     (let c = get_conn d;
          (new_id, c1) =
            (case item_id_p of
               Some i \<Rightarrow>
                 (i, (case select_by_id i c of
                        Some r \<Rightarrow>
                          update_where_id i
                            (\<lambda>x. x\<lparr>qty := qty r + qty_p, tyre_size := size_p, company := company_p,
                                    series := series_p, last_updated := ts\<rparr>) c
                      | None \<Rightarrow>
                          insert_item
                            \<lparr>item_id = i, tyre_size = size_p, company = company_p,
                             series = series_p, qty = qty_p, last_updated = ts\<rparr> c))
             | None \<Rightarrow>
                 (lastrowid c,
                  insert_item
                    \<lparr>item_id = lastrowid c, tyre_size = size_p, company = company_p,
                     series = series_p, qty = qty_p, last_updated = ts\<rparr> c));
          c2 = insert_transaction
                 \<lparr>tx_item_id = new_id, tx_tyre_size = size_p, tx_company = company_p,
                  tx_series = series_p, change = qty_p, reason = ''stock_in'',
                  timestamp = ts, tx_note = note_p\<rparr> c1
      in (new_id, close (commit c2)))"

definition remove_stock_by_id ::
  "string \<Rightarrow> int \<Rightarrow> int \<Rightarrow> string \<Rightarrow> string option \<Rightarrow> db \<Rightarrow> (error + unit) \<times> db" where
  "remove_stock_by_id ts item_id_p qty_p reason_p note_p d =
     (let c = get_conn d in
      case select_by_id item_id_p c of
        None \<Rightarrow> (Inl ItemIdNotFound, close c)
      | Some row \<Rightarrow>
          if qty_p > qty row then (Inl (NotEnoughStock (qty row) qty_p), close c)
          else
            (let c1 = update_where_id item_id_p
                        (\<lambda>x. x\<lparr>qty := qty row - qty_p, last_updated := ts\<rparr>) c;
                 c2 = insert_transaction
                        \<lparr>tx_item_id = item_id_p, tx_tyre_size = tyre_size row,
                         tx_company = company row, tx_series = series row, change = - qty_p,
                         reason = reason_p, timestamp = ts, tx_note = note_p\<rparr> c1
             in (Inr (), close (commit c2))))"

text \<open>
  \<open>find_item_by_signature\<close> reads on a connection of its own, which it closes;
  \<open>remove_stock_by_signature\<close> then writes on a second one.
\<close>

definition find_item_by_signature :: "string option \<Rightarrow> string option \<Rightarrow> string option \<Rightarrow> db \<Rightarrow> item option" where
  "find_item_by_signature size_p company_p series_p d =
     select_by_signature size_p company_p series_p (get_conn d)"

definition remove_stock_by_signature ::
  "string \<Rightarrow> string option \<Rightarrow> string option \<Rightarrow> string option \<Rightarrow> int \<Rightarrow> string \<Rightarrow> string option
     \<Rightarrow> db \<Rightarrow> (error + unit) \<times> db" where
  "remove_stock_by_signature ts size_p company_p series_p qty_p reason_p note_p d =
     (case find_item_by_signature size_p company_p series_p d of
        None \<Rightarrow> (Inl ItemNotFoundBySignature, d)
      | Some found \<Rightarrow>
          if qty_p > qty found then (Inl (NotEnoughStock (qty found) qty_p), d)
          else
            (let c = get_conn d;
                 c1 = update_where_id (item_id found)
                        (\<lambda>x. x\<lparr>qty := qty found - qty_p, last_updated := ts\<rparr>) c;
                 c2 = insert_transaction
                        \<lparr>tx_item_id = item_id found, tx_tyre_size = tyre_size found,
                         tx_company = company found, tx_series = series found,
                         change = - qty_p, reason = reason_p, timestamp = ts,
                         tx_note = note_p\<rparr> c1
             in (Inr (), close (commit c2))))"

section \<open>Reading a spreadsheet: \<open>read_excel_to_df\<close>\<close>

text \<open>
  A pandas data frame of cells, as \<open>pd.read_excel\<close> and \<open>pd.read_sql_query\<close> return it:
  its column labels, and its rows, each a series indexed by column label; \<open>NaN\<close> is a
  missing value. A character is a code point below 256: \<open>str.lower\<close> maps the upper-case
  letters of that range (\<open>A\<close> to \<open>Z\<close>, and U+00C0 to U+00DE without the multiplication
  sign U+00D7) to the letter 32 places on, and \<open>str.strip\<close> removes the characters of
  that range for which \<open>str.isspace\<close> holds (U+0009 to U+000D, U+001C to U+0020, U+0085,
  U+00A0).
\<close>

record excel_frame =
  df_columns :: "string list"
  df_rows :: "(string \<Rightarrow> cell) list"

definition is_upper :: "char \<Rightarrow> bool" where
  "is_upper c = ((65::nat) \<le> of_char c \<and> of_char c \<le> (90::nat)
                 \<or> (192::nat) \<le> of_char c \<and> of_char c \<le> (222::nat) \<and> of_char c \<noteq> (215::nat))"

definition lower_char :: "char \<Rightarrow> char" where
  "lower_char c = (if is_upper c then char_of (of_char c + (32::nat)) else c)"

definition py_lower :: "string \<Rightarrow> string" where
  "py_lower s = map lower_char s"

definition is_space :: "char \<Rightarrow> bool" where
  "is_space c = ((9::nat) \<le> of_char c \<and> of_char c \<le> (13::nat)
                 \<or> (28::nat) \<le> of_char c \<and> of_char c \<le> (32::nat)
                 \<or> of_char c = (133::nat) \<or> of_char c = (160::nat))"

definition py_strip :: "string \<Rightarrow> string" where
  "py_strip s = rev (dropWhile is_space (rev (dropWhile is_space s)))"

text \<open>\<open>normalize_cols\<close>: the dict comprehension; a later column wins a shared key.\<close>

definition normalize_cols :: "string list \<Rightarrow> (string \<rightharpoonup> string)" where
  "normalize_cols cols = fold (\<lambda>c m. m(py_strip (py_lower c) \<mapsto> c)) cols Map.empty"

definition required :: "string list" where
  "required = [''id'', ''tyre size'', ''quantity'']"

text \<open>\<open>str()\<close> of a cell: the decimal digits of a number, the text of a text cell.\<close>

definition digit_char :: "nat \<Rightarrow> char" where
  "digit_char n = char_of (48 + n)"

fun nat_digits :: "nat \<Rightarrow> string" where
  "nat_digits n = (if n < 10 then [digit_char n] else nat_digits (n div 10) @ [digit_char (n mod 10)])"

definition py_str :: "cell \<Rightarrow> string" where
  "py_str v =
     (case v of
        NaN \<Rightarrow> ''nan''
      | IntCell n \<Rightarrow> (if n < 0 then CHR ''-'' # nat_digits (nat (- n)) else nat_digits (nat n))
      | StrCell s \<Rightarrow> s)"

text \<open>
  \<open>int()\<close> of a cell, \<open>None\<close> when it raises. On a text, Python strips white space, reads
  an optional sign, and then decimal digits in which single underscores may stand
  between two digits. (The bound that recent versions of Python put on the number of
  digits is left out.)
\<close>

definition is_digit :: "char \<Rightarrow> bool" where
  "is_digit c = ((48::nat) \<le> of_char c \<and> of_char c \<le> (57::nat))"

definition digit_val :: "char \<Rightarrow> nat" where
  "digit_val c = of_char c - 48"

fun parse_digits :: "nat \<Rightarrow> string \<Rightarrow> nat option" where
  "parse_digits acc [] = Some acc"
| "parse_digits acc [c] = (if is_digit c then Some (acc * 10 + digit_val c) else None)"
| "parse_digits acc (c # d # ds) =
     (if is_digit c then parse_digits (acc * 10 + digit_val c) (d # ds)
      else if c = CHR ''_'' \<and> is_digit d then parse_digits (acc * 10 + digit_val d) ds
      else None)"

definition parse_unsigned :: "string \<Rightarrow> nat option" where
  "parse_unsigned s =
     (case s of [] \<Rightarrow> None | c # cs \<Rightarrow> if is_digit c then parse_digits (digit_val c) cs else None)"

definition int_of_string :: "string \<Rightarrow> int option" where
  "int_of_string s =
     (case py_strip s of
        [] \<Rightarrow> None
      | c # cs \<Rightarrow>
          if c = CHR ''-'' then map_option (\<lambda>n. - int n) (parse_unsigned cs)
          else if c = CHR ''+'' then map_option int (parse_unsigned cs)
          else map_option int (parse_unsigned (c # cs)))"

definition py_int :: "cell \<Rightarrow> int option" where
  "py_int v = (case v of NaN \<Rightarrow> None | IntCell n \<Rightarrow> Some n | StrCell s \<Rightarrow> int_of_string s)"

definition notna :: "cell \<Rightarrow> bool" where
  "notna v = (v \<noteq> NaN)"

text \<open>
  The body of the loop over \<open>df.iterrows()\<close>. A failed conversion of the id is caught
  (\<open>except Exception\<close>) and gives no id; a failed conversion of the quantity is not
  caught. A lookup \<open>cols_map[k]\<close> of a missing key raises \<open>KeyError\<close>.
\<close>

definition optional_text :: "(string \<rightharpoonup> string) \<Rightarrow> string \<Rightarrow> (string \<Rightarrow> cell) \<Rightarrow> string option" where
  "optional_text cols_map k row =
     (case cols_map k of
        None \<Rightarrow> None
      | Some c \<Rightarrow> if notna (row c) then Some (py_strip (py_str (row c))) else None)"

definition parse_row :: "(string \<rightharpoonup> string) \<Rightarrow> (string \<Rightarrow> cell) \<Rightarrow> error + canonical_row" where
  "parse_row cols_map row =
     (case cols_map ''id'' of
        None \<Rightarrow> Inl (KeyError ''id'')
      | Some id_col \<Rightarrow>
     (case cols_map ''tyre size'' of
        None \<Rightarrow> Inl (KeyError ''tyre size'')
      | Some size_col \<Rightarrow>
     (case cols_map ''quantity'' of
        None \<Rightarrow> Inl (KeyError ''quantity'')
      | Some qty_col \<Rightarrow>
          (let excel_id = (if notna (row id_col) then py_int (row id_col) else None);
               tyre_size_v = (if notna (row size_col) then Some (py_strip (py_str (row size_col))) else None);
               company_v = optional_text cols_map ''company'' row;
               series_v = optional_text cols_map ''series'' row
           in if notna (row qty_col)
              then (case py_int (row qty_col) of
                      None \<Rightarrow> Inl (InvalidLiteralForInt (row qty_col))
                    | Some q \<Rightarrow>
                        Inr \<lparr>row_id = excel_id, row_tyre_size = tyre_size_v, row_company = company_v,
                             row_series = series_v, row_qty = q\<rparr>)
              else Inr \<lparr>row_id = excel_id, row_tyre_size = tyre_size_v, row_company = company_v,
                        row_series = series_v, row_qty = 0\<rparr>))))"

fun parse_rows :: "(string \<rightharpoonup> string) \<Rightarrow> (string \<Rightarrow> cell) list \<Rightarrow> error + canonical_row list" where
  "parse_rows cols_map [] = Inr []"
| "parse_rows cols_map (row # rest) =
     (case parse_row cols_map row of
        Inl e \<Rightarrow> Inl e
      | Inr r \<Rightarrow> (case parse_rows cols_map rest of Inl e \<Rightarrow> Inl e | Inr rs \<Rightarrow> Inr (r # rs)))"

definition read_excel_to_df :: "excel_frame \<Rightarrow> error + canonical_row list" where
  "read_excel_to_df df =
     (let cols_map = normalize_cols (df_columns df) in
      if \<not> list_all (\<lambda>r. cols_map r \<noteq> None) required
      then Inl (ExcelMustContainColumns required (df_columns df))
      else parse_rows cols_map (df_rows df))"

text \<open>
  The import of an uploaded file in merge mode, as the page runs it once the start
  button is pressed: \<open>read_excel_to_df\<close>, then \<open>upsert_items_from_df\<close>, any exception of
  either being caught and shown. \<open>read_excel_to_df\<close> returns \<open>pd.DataFrame(rows)\<close>, which
  for an empty list of rows is a frame without columns; on it, the first statement of
  \<open>upsert_items_from_df\<close> after \<open>get_conn\<close>, \<open>df_in['id']\<close>, raises \<open>KeyError\<close> before any
  SQL statement has run.
\<close>

definition import_uploaded_file :: "string \<Rightarrow> excel_frame \<Rightarrow> db \<Rightarrow> (error + unit) \<times> db" where
  "import_uploaded_file ts df d =
     (case read_excel_to_df df of
        Inl e \<Rightarrow> (Inl e, d)
      | Inr df_excel \<Rightarrow>
          if df_excel = [] then (Inl (KeyError ''id''), close (get_conn d))
          else (Inr (), upsert_items_from_df ts df_excel d))"

section \<open>Export: \<open>get_items_df\<close> and \<open>backup_db_to_excel\<close>\<close>

text \<open>
  \<open>get_items_df\<close> is the frame of \<open>SELECT * FROM items ORDER BY id\<close>: its labels are the
  names of the table's columns, and a \<open>NULL\<close> is a missing value. \<open>backup_db_to_excel\<close>
  writes this frame, labels first, to the file whose path it returns; the model gives the
  frame that is written.
\<close>

definition text_cell :: "string option \<Rightarrow> cell" where
  "text_cell v = (case v of None \<Rightarrow> NaN | Some s \<Rightarrow> StrCell s)"

definition item_cells :: "item \<Rightarrow> string \<Rightarrow> cell" where
  "item_cells x c =
     (if c = ''id'' then IntCell (item_id x)
      else if c = ''tyre_size'' then text_cell (tyre_size x)
      else if c = ''company'' then text_cell (company x)
      else if c = ''series'' then text_cell (series x)
      else if c = ''qty'' then IntCell (qty x)
      else if c = ''last_updated'' then StrCell (last_updated x)
      else NaN)"

definition get_items_df :: "db \<Rightarrow> excel_frame" where
  "get_items_df d =
     \<lparr>df_columns = [''id'', ''tyre_size'', ''company'', ''series'', ''qty'', ''last_updated''],
      df_rows = map item_cells (sort_key item_id (items d))\<rparr>"

definition backup_db_to_excel :: "db \<Rightarrow> excel_frame" where
  "backup_db_to_excel d = get_items_df d"

section \<open>Notions used to state the properties\<close>

text \<open>
  The primary key: the ids of the \<open>items\<close> rows are distinct, and the rows stand in
  ascending order of id.
\<close>

definition primary_key :: "db \<Rightarrow> bool" where
  "primary_key d = sorted_wrt (\<lambda>a b. item_id a < item_id b) (items d)"

text \<open>
  The quantity on hand under an id (\<open>0\<close> when no record has it), and the sum of the
  deltas that a list of audit entries records for an id.
\<close>

definition qty_of :: "int \<Rightarrow> db \<Rightarrow> int" where
  "qty_of i d = (case find (\<lambda>r. item_id r = i) (items d) of None \<Rightarrow> 0 | Some r \<Rightarrow> qty r)"

definition delta_sum :: "int \<Rightarrow> transaction list \<Rightarrow> int" where
  "delta_sum i es = sum_list (map change (filter (\<lambda>e. tx_item_id e = i) es))"

text \<open>
  The specification's reading of the merge, for comparison with \<open>upsert_items_from_df\<close>:
  the rows are taken one by one in the order of the sequence, each by the identifier path
  or the signature path (whose actions are those of the two loop bodies above), and each
  row is committed on its own.
\<close>

definition merge_row :: "string \<Rightarrow> canonical_row \<Rightarrow> conn \<Rightarrow> conn" where
  "merge_row ts r c = (if row_id r \<noteq> None then upsert_row_with_id ts r c else upsert_row_no_id ts r c)"

definition spec_merge_in_order :: "string \<Rightarrow> canonical_row list \<Rightarrow> db \<Rightarrow> db" where
  "spec_merge_in_order ts rs d = fold (\<lambda>r d'. close (commit (merge_row ts r (get_conn d')))) rs d"

text \<open>
  One audit entry accounts for the change from \<open>d\<close> to \<open>d1\<close>: exactly one entry has been
  appended, it names the record \<open>i\<close> and carries the delta, the quantity under \<open>i\<close> has
  changed by that delta, and no other quantity has changed.
\<close>

definition one_entry_logged :: "db \<Rightarrow> db \<Rightarrow> int \<Rightarrow> int \<Rightarrow> bool" where
  "one_entry_logged d d1 i delta =
     (\<exists>e. transactions d1 = transactions d @ [e] \<and> tx_item_id e = i \<and> change e = delta \<and>
          (\<forall>j. qty_of j d1 = qty_of j d + (if j = i then delta else 0)))"

text \<open>
  The canonical row that carries the identifier, the size, company and series, and the
  quantity of a record; what importing that row does to the record, and the audit entry
  it leaves.
\<close>

definition record_row :: "item \<Rightarrow> canonical_row" where
  "record_row x =
     \<lparr>row_id = Some (item_id x), row_tyre_size = tyre_size x, row_company = company x,
      row_series = series x, row_qty = qty x\<rparr>"

definition doubled :: "string \<Rightarrow> item \<Rightarrow> item" where
  "doubled ts x = x\<lparr>qty := 2 * qty x, last_updated := ts\<rparr>"

definition reimport_entry :: "string \<Rightarrow> item \<Rightarrow> transaction" where
  "reimport_entry ts x =
     \<lparr>tx_item_id = item_id x, tx_tyre_size = tyre_size x, tx_company = company x,
      tx_series = series x, change = qty x, reason = ''import_upsert'', timestamp = ts,
      tx_note = Some ''import from excel''\<rparr>"

text \<open>
  The required columns that a frame lacks.
\<close>

definition missing_columns :: "excel_frame \<Rightarrow> string list" where
  "missing_columns df = filter (\<lambda>q. normalize_cols (df_columns df) q = None) required"

text \<open>
  Every quantity cell of a frame is blank or converts with \<open>int()\<close>.
\<close>

definition quantity_cells_convert :: "excel_frame \<Rightarrow> bool" where
  "quantity_cells_convert df =
     (case normalize_cols (df_columns df) ''quantity'' of
        None \<Rightarrow> True
      | Some qty_col \<Rightarrow> list_all (\<lambda>row. row qty_col = NaN \<or> py_int (row qty_col) \<noteq> None) (df_rows df))"

section \<open>Example data\<close>

text \<open>A store with one record, used to instantiate the theorems below.\<close>

definition acme_item :: item where
  "acme_item =
     \<lparr>item_id = 1, tyre_size = Some ''155 70 R13'', company = Some ''Acme'', series = None,
      qty = 10, last_updated = ''2024-01-01T00:00:00''\<rparr>"

definition acme_store :: db where
  "acme_store = \<lparr>items = [acme_item], transactions = []\<rparr>"

definition eco_item :: item where
  "eco_item =
     \<lparr>item_id = 4, tyre_size = Some ''185 65 R14'', company = None, series = Some ''Eco'',
      qty = 3, last_updated = ''2024-01-02T00:00:00''\<rparr>"

definition two_item_store :: db where
  "two_item_store = \<lparr>items = [acme_item, eco_item], transactions = []\<rparr>"

text \<open>
  Three frames as \<open>pd.read_excel\<close> returns them: one without a size column, one without
  an id column, and one whose only row has a blank size cell.
\<close>

definition no_id_frame :: excel_frame where
  "no_id_frame =
     \<lparr>df_columns = [''Tyre Size'', ''Quantity''],
      df_rows = [(\<lambda>c. if c = ''Tyre Size'' then StrCell ''155 70 R13''
                       else if c = ''Quantity'' then IntCell 5
                       else NaN)]\<rparr>"

definition headers_frame :: excel_frame where
  "headers_frame =
     \<lparr>df_columns = [''ID'', '' Quantity '', ''Company''],
      df_rows = [(\<lambda>c. if c = ''ID'' then IntCell 3
                       else if c = '' Quantity '' then IntCell 5
                       else NaN)]\<rparr>"

definition blank_size_frame :: excel_frame where
  "blank_size_frame =
     \<lparr>df_columns = [''ID'', ''Tyre Size'', ''Quantity'', ''Company''],
      df_rows = [(\<lambda>c. if c = ''ID'' then IntCell 7
                       else if c = ''Quantity'' then StrCell '' 4''
                       else if c = ''Company'' then StrCell '' Acme ''
                       else NaN)]\<rparr>"

section \<open>Facts about the statements\<close>

lemmas conn_defs = get_conn_def commit_def close_def select_by_id_def update_where_id_def
  insert_item_def insert_transaction_def lastrowid_def select_by_signature_def

subsection \<open>Inserting and finding rows\<close>

lemma find_insert_sorted_other:
  "item_id r \<noteq> i \<Longrightarrow> find (\<lambda>x. item_id x = i) (insert_sorted r xs) = find (\<lambda>x. item_id x = i) xs"
  by (induction xs) auto

lemma find_insert_sorted_same:
  "\<forall>x \<in> set xs. item_id x \<noteq> item_id r \<Longrightarrow> find (\<lambda>x. item_id x = item_id r) (insert_sorted r xs) = Some r"
  by (induction xs) auto

lemma set_insert_sorted: "set (insert_sorted r xs) = insert r (set xs)"
  by (induction xs) auto

lemma length_insert_sorted: "length (insert_sorted r xs) = Suc (length xs)"
  by (induction xs) auto

lemma next_rowid_fresh:
  assumes "x \<in> set xs"
  shows "item_id x < next_rowid xs"
proof -
  have "item_id x \<le> Max (set (map item_id xs))"
    using assms by (intro Max_ge) auto
  with assms show ?thesis by (auto simp: next_rowid_def)
qed

lemma find_None_iff_id: "(find (\<lambda>x. item_id x = i) xs = None) = (\<forall>x \<in> set xs. item_id x \<noteq> i)"
  by (auto simp: find_None_iff)

lemma find_Some_member: "find P xs = Some m \<Longrightarrow> m \<in> set xs \<and> P m"
  by (induction xs) (auto split: if_splits)

subsection \<open>The primary key\<close>

lemma sorted_insert_sorted:
  "sorted_wrt (\<lambda>a b. item_id a < item_id b) xs \<Longrightarrow> \<forall>x \<in> set xs. item_id x \<noteq> item_id r
   \<Longrightarrow> sorted_wrt (\<lambda>a b. item_id a < item_id b) (insert_sorted r xs)"
  by (induction xs) (auto simp: set_insert_sorted)

lemma sorted_map_update:
  "sorted_wrt (\<lambda>a b. item_id a < item_id b) xs \<Longrightarrow> (\<And>x. item_id (f x) = item_id x)
   \<Longrightarrow> sorted_wrt (\<lambda>a b. item_id a < item_id b) (map (\<lambda>r. if item_id r = i then f r else r) xs)"
  by (induction xs) auto

lemma find_sorted_member:
  "sorted_wrt (\<lambda>a b. item_id a < item_id b) xs \<Longrightarrow> x \<in> set xs \<Longrightarrow> find (\<lambda>y. item_id y = item_id x) xs = Some x"
  by (induction xs) auto

lemma find_sorted_least:
  "sorted_wrt (\<lambda>a b. item_id a < item_id b) xs \<Longrightarrow> find P xs = Some m \<Longrightarrow> y \<in> set xs \<Longrightarrow> P y
   \<Longrightarrow> item_id m \<le> item_id y"
  by (induction xs) (auto split: if_splits)

lemma item_id_inj:
  assumes "sorted_wrt (\<lambda>a b. item_id a < item_id b) xs" and "x \<in> set xs" and "m \<in> set xs"
    and "item_id x = item_id m"
  shows "x = m"
proof -
  have a: "find (\<lambda>y. item_id y = item_id m) xs = Some x"
    using find_sorted_member[OF assms(1,2)] unfolding assms(4) .
  have b: "find (\<lambda>y. item_id y = item_id m) xs = Some m"
    using assms(1,3) by (rule find_sorted_member)
  have "Some x = Some m" by (rule trans[OF a[symmetric] b])
  then show ?thesis by (rule option.inject[THEN iffD1])
qed

lemma map_update_unique:
  assumes "sorted_wrt (\<lambda>a b. item_id a < item_id b) xs" and "m \<in> set xs"
  shows "map (\<lambda>y. if item_id y = item_id m then f y else y) xs = map (\<lambda>y. if y = m then f m else y) xs"
proof (rule map_cong)
  fix y assume "y \<in> set xs"
  then have "item_id y = item_id m \<Longrightarrow> y = m"
    using item_id_inj[OF assms(1) _ assms(2)] by blast
  then show "(if item_id y = item_id m then f y else y) = (if y = m then f m else y)" by auto
qed simp

lemma select_by_id_member:
  "primary_key d \<Longrightarrow> x \<in> set (items d) \<Longrightarrow> select_by_id (item_id x) (get_conn d) = Some x"
  by (simp add: select_by_id_def get_conn_def primary_key_def find_sorted_member)

subsection \<open>The conditions of the signature query\<close>

lemma sql_and_True: "(sql_and a b = Some True) = (a = Some True \<and> b = Some True)"
  by (induction a b rule: sql_and.induct) auto

lemma sql_or_True: "(sql_or a b = Some True) = (a = Some True \<or> b = Some True)"
  by (induction a b rule: sql_or.induct) auto

lemma sql_eq_True: "(sql_eq a b = Some True) = (\<exists>v. a = Some v \<and> b = Some v)"
  by (auto simp: sql_eq_def split: option.splits)

text \<open>
  The query matches a row exactly when the size is present and equal, and the company
  and the series are equal or both \<open>NULL\<close>. A \<open>NULL\<close> size matches nothing.
\<close>

lemma signature_where_True:
  "(signature_where sz co se y = Some True) =
     ((\<exists>s. sz = Some s \<and> tyre_size y = Some s) \<and> company y = co \<and> series y = se)"
  by (cases co; cases se; cases "company y"; cases "series y")
     (auto simp: signature_where_def sql_and_True sql_or_True sql_eq_True sql_is_null_def)

subsection \<open>The loops of the import write to the pending database only\<close>

lemma pending_with_id_cong:
  "pending c = pending c' \<Longrightarrow> pending (upsert_row_with_id ts r c) = pending (upsert_row_with_id ts r c')"
  by (simp add: upsert_row_with_id_def conn_defs Let_def split: option.splits)

lemma pending_no_id_cong:
  "pending c = pending c' \<Longrightarrow> pending (upsert_row_no_id ts r c) = pending (upsert_row_no_id ts r c')"
  by (simp add: upsert_row_no_id_def conn_defs Let_def split: option.splits)

lemma committed_with_id: "committed (upsert_row_with_id ts r c) = committed c"
  by (simp add: upsert_row_with_id_def conn_defs Let_def split: option.splits)

lemma committed_no_id: "committed (upsert_row_no_id ts r c) = committed c"
  by (simp add: upsert_row_no_id_def conn_defs Let_def split: option.splits)

lemma pending_fold_cong:
  assumes step: "\<And>r c c'. pending c = pending c' \<Longrightarrow> pending (f r c) = pending (f r c')"
  shows "pending c = pending c' \<Longrightarrow> pending (fold f rs c) = pending (fold f rs c')"
proof (induction rs arbitrary: c c')
  case Nil
  then show ?case by simp
next
  case (Cons r rs)
  have "pending (f r c) = pending (f r c')" using Cons.prems by (rule step)
  then have "pending (fold f rs (f r c)) = pending (fold f rs (f r c'))" by (rule Cons.IH)
  then show ?case by simp
qed

lemma pending_loops_cong:
  assumes "pending c = pending c'"
  shows "pending (upsert_loops ts df c) = pending (upsert_loops ts df c')"
proof -
  have "pending (fold (upsert_row_with_id ts) (rows_with_id df) c)
      = pending (fold (upsert_row_with_id ts) (rows_with_id df) c')"
    using assms by (intro pending_fold_cong[where f = "upsert_row_with_id ts"] pending_with_id_cong)
  then show ?thesis
    unfolding upsert_loops_def
    by (intro pending_fold_cong[where f = "upsert_row_no_id ts"] pending_no_id_cong)
qed

lemma committed_fold:
  assumes "\<And>r c. committed (f r c) = committed c"
  shows "committed (fold f rs c) = committed c"
  by (induction rs arbitrary: c) (simp_all add: assms)

lemma committed_loops: "committed (upsert_loops ts df c) = committed c"
  by (simp add: upsert_loops_def committed_fold committed_with_id committed_no_id)

lemma upsert_items_pending: "upsert_items_from_df ts df d = pending (upsert_loops ts df (get_conn d))"
  by (simp add: upsert_items_from_df_def close_def commit_def)

lemma upsert_single:
  "upsert_items_from_df ts [r] d =
     close (commit ((if row_id r \<noteq> None then upsert_row_with_id ts r else upsert_row_no_id ts r) (get_conn d)))"
  by (simp add: upsert_items_from_df_def upsert_loops_def rows_with_id_def rows_no_id_def)

lemma upsert_with_id_head:
  assumes "row_id r \<noteq> None"
  shows "upsert_items_from_df ts (r # rest) d = upsert_items_from_df ts rest (upsert_items_from_df ts [r] d)"
proof -
  let ?c1 = "upsert_row_with_id ts r (get_conn d)"
  from assms obtain i where i: "row_id r = Some i" by auto
  have a: "upsert_loops ts (r # rest) (get_conn d) = upsert_loops ts rest ?c1"
    using i by (simp add: upsert_loops_def rows_with_id_def rows_no_id_def)
  have b: "upsert_items_from_df ts [r] d = pending ?c1"
    using i by (simp add: upsert_items_pending upsert_loops_def rows_with_id_def rows_no_id_def)
  have "upsert_items_from_df ts (r # rest) d = pending (upsert_loops ts rest ?c1)"
    by (simp add: upsert_items_pending a)
  also have "\<dots> = pending (upsert_loops ts rest (get_conn (pending ?c1)))"
    by (rule pending_loops_cong) (simp add: get_conn_def)
  also have "\<dots> = upsert_items_from_df ts rest (pending ?c1)"
    by (simp add: upsert_items_pending)
  finally show ?thesis by (simp only: b)
qed

subsection \<open>Re-importing an export\<close>

lemma find_append_not_left:
  "\<forall>x \<in> set xs. \<not> P x \<Longrightarrow> find P (xs @ ys) = find P ys"
  by (induction xs) auto

lemma map_id_other:
  "\<forall>x \<in> set xs. item_id x \<noteq> i \<Longrightarrow> map (\<lambda>r. if item_id r = i then f r else r) xs = xs"
  by (induction xs) auto

lemma db_eqI: "items d = a \<Longrightarrow> transactions d = b \<Longrightarrow> d = \<lparr>items = a, transactions = b\<rparr>"
  by (cases d) simp

lemma items_update_where_id:
  "items (pending (update_where_id i f c)) = map (\<lambda>r. if item_id r = i then f r else r) (items (pending c))"
  by (simp add: update_where_id_def)

lemma transactions_update_where_id:
  "transactions (pending (update_where_id i f c)) = transactions (pending c)"
  by (simp add: update_where_id_def)

lemma items_insert_transaction: "items (pending (insert_transaction t c)) = items (pending c)"
  by (simp add: insert_transaction_def)

lemma transactions_insert_transaction:
  "transactions (pending (insert_transaction t c)) = transactions (pending c) @ [t]"
  by (simp add: insert_transaction_def)

lemma items_insert_item: "items (pending (insert_item r c)) = insert_sorted r (items (pending c))"
  by (simp add: insert_item_def)

lemma transactions_insert_item: "transactions (pending (insert_item r c)) = transactions (pending c)"
  by (simp add: insert_item_def)

lemma reimport_step:
  assumes "sorted_wrt (\<lambda>a b. item_id a < item_id b) (dn @ y # rest)"
    and "items (pending c) = map (doubled ts) dn @ y # rest"
  shows "pending (upsert_row_with_id ts (record_row y) c) =
           \<lparr>items = map (doubled ts) (dn @ [y]) @ rest,
            transactions = transactions (pending c) @ [reimport_entry ts y]\<rparr>"
proof -
  let ?f = "\<lambda>x. x\<lparr>tyre_size := tyre_size y, company := company y, series := series y,
                     qty := qty y + qty y, last_updated := ts\<rparr>"
  from assms(1) have left: "\<forall>a \<in> set dn. item_id a < item_id y"
    and right: "\<forall>b \<in> set rest. item_id y < item_id b"
    by (auto simp: sorted_wrt_append)
  have l2: "\<forall>a \<in> set (map (doubled ts) dn). item_id a \<noteq> item_id y"
    using left by (auto simp: doubled_def)
  have r2: "\<forall>b \<in> set rest. item_id b \<noteq> item_id y"
    using right by auto
  have sel: "select_by_id (item_id y) c = Some y"
    using l2 by (simp add: select_by_id_def assms(2) find_append_not_left)
  have run: "upsert_row_with_id ts (record_row y) c =
               insert_transaction (reimport_entry ts y) (update_where_id (item_id y) ?f c)"
    using sel by (simp add: upsert_row_with_id_def record_row_def reimport_entry_def)
  have "map (\<lambda>r. if item_id r = item_id y then ?f r else r) (map (doubled ts) dn @ y # rest)
      = map (\<lambda>r. if item_id r = item_id y then ?f r else r) (map (doubled ts) dn)
        @ ?f y # map (\<lambda>r. if item_id r = item_id y then ?f r else r) rest"
    by simp
  also have "\<dots> = map (doubled ts) dn @ ?f y # rest"
    by (simp only: map_id_other[OF l2] map_id_other[OF r2])
  also have "?f y = doubled ts y" by (simp add: doubled_def)
  finally have upd: "map (\<lambda>r. if item_id r = item_id y then ?f r else r) (map (doubled ts) dn @ y # rest)
      = map (doubled ts) (dn @ [y]) @ rest" by simp
  show ?thesis
  proof (rule db_eqI)
    show "items (pending (upsert_row_with_id ts (record_row y) c)) = map (doubled ts) (dn @ [y]) @ rest"
      by (simp only: run items_insert_transaction items_update_where_id assms(2) upd)
    show "transactions (pending (upsert_row_with_id ts (record_row y) c))
          = transactions (pending c) @ [reimport_entry ts y]"
      by (simp only: run transactions_insert_transaction transactions_update_where_id)
  qed
qed

lemma reimport_fold:
  "sorted_wrt (\<lambda>a b. item_id a < item_id b) (dn @ todo) \<Longrightarrow>
   items (pending c) = map (doubled ts) dn @ todo \<Longrightarrow>
   pending (fold (upsert_row_with_id ts) (map record_row todo) c) =
     \<lparr>items = map (doubled ts) (dn @ todo),
      transactions = transactions (pending c) @ map (reimport_entry ts) todo\<rparr>"
proof (induction todo arbitrary: dn c)
  case Nil
  then show ?case by simp
next
  case (Cons y rest)
  let ?c1 = "upsert_row_with_id ts (record_row y) c"
  have step: "pending ?c1 = \<lparr>items = map (doubled ts) (dn @ [y]) @ rest,
            transactions = transactions (pending c) @ [reimport_entry ts y]\<rparr>"
    using Cons.prems by (rule reimport_step)
  have "pending (fold (upsert_row_with_id ts) (map record_row rest) ?c1) =
     \<lparr>items = map (doubled ts) ((dn @ [y]) @ rest),
      transactions = transactions (pending ?c1) @ map (reimport_entry ts) rest\<rparr>"
    using Cons.prems(1) by (intro Cons.IH) (simp_all add: step)
  then show ?case by (simp add: step)
qed

subsection \<open>Quantities and audit entries\<close>

lemma find_map_update:
  assumes "\<And>y. item_id (f y) = item_id y"
  shows "find (\<lambda>r. item_id r = j) (map (\<lambda>r. if item_id r = i then f r else r) xs)
         = map_option (\<lambda>r. if item_id r = i then f r else r) (find (\<lambda>r. item_id r = j) xs)"
  by (induction xs) (auto simp: assms)

lemma qty_of_update:
  assumes "items p1 = map (\<lambda>r. if item_id r = i then f r else r) (items p)"
    and "find (\<lambda>r. item_id r = i) (items p) = Some x"
    and "\<And>y. item_id (f y) = item_id y" and "qty (f x) = qty x + k"
  shows "qty_of j p1 = qty_of j p + (if j = i then k else 0)"
proof (cases "j = i")
  case True
  have "item_id x = i" using find_Some_member[OF assms(2)] by simp
  then show ?thesis
    using True assms(2,4) by (simp add: qty_of_def assms(1) find_map_update[of f, OF assms(3)])
next
  case False
  show ?thesis
    using False
    by (auto simp: qty_of_def assms(1) find_map_update[of f, OF assms(3)] split: option.splits
             dest: find_Some_member)
qed

lemma qty_of_insert:
  assumes "items p1 = insert_sorted r0 (items p)"
    and "find (\<lambda>r. item_id r = item_id r0) (items p) = None"
  shows "qty_of j p1 = qty_of j p + (if j = item_id r0 then qty r0 else 0)"
proof (cases "j = item_id r0")
  case True
  have "\<forall>x \<in> set (items p). item_id x \<noteq> item_id r0"
    using assms(2) by (simp add: find_None_iff_id)
  then show ?thesis
    using True assms(2) by (simp add: qty_of_def assms(1) find_insert_sorted_same)
next
  case False
  then have "item_id r0 \<noteq> j" by simp
  then show ?thesis
    using False by (simp add: qty_of_def assms(1) find_insert_sorted_other)
qed

lemma delta_sum_single: "delta_sum j [e] = (if j = tx_item_id e then change e else 0)"
  by (auto simp: delta_sum_def)

lemma delta_sum_append: "delta_sum j (es @ fs) = delta_sum j es + delta_sum j fs"
  by (simp add: delta_sum_def)

lemma with_id_step:
  assumes "row_id r = Some i" and "sorted_wrt (\<lambda>a b. item_id a < item_id b) (items (pending c))"
  shows "\<exists>e. transactions (pending (upsert_row_with_id ts r c)) = transactions (pending c) @ [e]
             \<and> change e = row_qty r
             \<and> (\<forall>j. qty_of j (pending (upsert_row_with_id ts r c)) = qty_of j (pending c) + delta_sum j [e])
             \<and> sorted_wrt (\<lambda>a b. item_id a < item_id b) (items (pending (upsert_row_with_id ts r c)))"
proof (cases "select_by_id i c")
  case None
  let ?r0 = "\<lparr>item_id = i, tyre_size = row_tyre_size r, company = row_company r,
                     series = row_series r, qty = row_qty r, last_updated = ts\<rparr>"
  let ?e = "\<lparr>tx_item_id = i, tx_tyre_size = row_tyre_size r, tx_company = row_company r,
                 tx_series = row_series r, change = row_qty r, reason = ''import_upsert'',
                 timestamp = ts, tx_note = Some ''import from excel''\<rparr>"
  have run: "upsert_row_with_id ts r c = insert_transaction ?e (insert_item ?r0 c)"
    using None assms(1) by (simp add: upsert_row_with_id_def)
  have nf: "find (\<lambda>x. item_id x = item_id ?r0) (items (pending c)) = None"
    using None by (simp add: select_by_id_def)
  have it: "items (pending (upsert_row_with_id ts r c)) = insert_sorted ?r0 (items (pending c))"
    by (simp only: run items_insert_transaction items_insert_item)
  have tr: "transactions (pending (upsert_row_with_id ts r c)) = transactions (pending c) @ [?e]"
    by (simp only: run transactions_insert_transaction transactions_insert_item)
  have q: "qty_of j (pending (upsert_row_with_id ts r c)) = qty_of j (pending c) + delta_sum j [?e]" for j
    using qty_of_insert[OF it nf, of j] by (simp add: delta_sum_single)
  have "\<forall>x \<in> set (items (pending c)). item_id x \<noteq> item_id ?r0"
    using nf by (simp add: find_None_iff_id)
  then have s: "sorted_wrt (\<lambda>a b. item_id a < item_id b) (items (pending (upsert_row_with_id ts r c)))"
    unfolding it using assms(2) by (intro sorted_insert_sorted)
  show ?thesis using tr q s by (intro exI[of _ ?e]) simp
next
  case (Some found)
  let ?f = "\<lambda>x. x\<lparr>tyre_size := row_tyre_size r, company := row_company r,
                            series := row_series r, qty := qty found + row_qty r,
                            last_updated := ts\<rparr>"
  let ?e = "\<lparr>tx_item_id = i, tx_tyre_size = row_tyre_size r, tx_company = row_company r,
                 tx_series = row_series r, change = row_qty r, reason = ''import_upsert'',
                 timestamp = ts, tx_note = Some ''import from excel''\<rparr>"
  have run: "upsert_row_with_id ts r c = insert_transaction ?e (update_where_id i ?f c)"
    using Some assms(1) by (simp add: upsert_row_with_id_def)
  have fd: "find (\<lambda>x. item_id x = i) (items (pending c)) = Some found"
    using Some by (simp add: select_by_id_def)
  have it: "items (pending (upsert_row_with_id ts r c))
            = map (\<lambda>x. if item_id x = i then ?f x else x) (items (pending c))"
    by (simp only: run items_insert_transaction items_update_where_id)
  have tr: "transactions (pending (upsert_row_with_id ts r c)) = transactions (pending c) @ [?e]"
    by (simp only: run transactions_insert_transaction transactions_update_where_id)
  have q: "qty_of j (pending (upsert_row_with_id ts r c)) = qty_of j (pending c) + delta_sum j [?e]" for j
    using qty_of_update[OF it fd, of "row_qty r" j] by (simp add: delta_sum_single)
  have s: "sorted_wrt (\<lambda>a b. item_id a < item_id b) (items (pending (upsert_row_with_id ts r c)))"
    unfolding it using assms(2) by (intro sorted_map_update) simp_all
  show ?thesis using tr q s by (intro exI[of _ ?e]) simp
qed

lemma no_id_step:
  assumes "sorted_wrt (\<lambda>a b. item_id a < item_id b) (items (pending c))"
  shows "\<exists>e. transactions (pending (upsert_row_no_id ts r c)) = transactions (pending c) @ [e]
             \<and> change e = row_qty r
             \<and> (\<forall>j. qty_of j (pending (upsert_row_no_id ts r c)) = qty_of j (pending c) + delta_sum j [e])
             \<and> sorted_wrt (\<lambda>a b. item_id a < item_id b) (items (pending (upsert_row_no_id ts r c)))"
proof (cases "select_by_signature (row_tyre_size r) (row_company r) (row_series r) c")
  case None
  let ?i = "lastrowid c"
  let ?r0 = "\<lparr>item_id = ?i, tyre_size = row_tyre_size r, company = row_company r,
                     series = row_series r, qty = row_qty r, last_updated = ts\<rparr>"
  let ?e = "\<lparr>tx_item_id = ?i, tx_tyre_size = row_tyre_size r, tx_company = row_company r,
              tx_series = row_series r, change = row_qty r, reason = ''import_new'',
              timestamp = ts, tx_note = Some ''new row from excel''\<rparr>"
  have run: "upsert_row_no_id ts r c = insert_transaction ?e (insert_item ?r0 c)"
    using None by (simp add: upsert_row_no_id_def Let_def)
  have fresh: "\<forall>x \<in> set (items (pending c)). item_id x \<noteq> item_id ?r0"
    using next_rowid_fresh[of _ "items (pending c)"] by (fastforce simp: lastrowid_def)
  then have nf: "find (\<lambda>x. item_id x = item_id ?r0) (items (pending c)) = None"
    by (simp only: find_None_iff_id)
  have it: "items (pending (upsert_row_no_id ts r c)) = insert_sorted ?r0 (items (pending c))"
    by (simp only: run items_insert_transaction items_insert_item)
  have tr: "transactions (pending (upsert_row_no_id ts r c)) = transactions (pending c) @ [?e]"
    by (simp only: run transactions_insert_transaction transactions_insert_item)
  have q: "qty_of j (pending (upsert_row_no_id ts r c)) = qty_of j (pending c) + delta_sum j [?e]" for j
    using qty_of_insert[OF it nf, of j] by (simp add: delta_sum_single)
  have s: "sorted_wrt (\<lambda>a b. item_id a < item_id b) (items (pending (upsert_row_no_id ts r c)))"
    unfolding it using assms fresh by (intro sorted_insert_sorted)
  show ?thesis using tr q s by (intro exI[of _ ?e]) simp
next
  case (Some found)
  let ?i = "item_id found"
  let ?f = "\<lambda>x. x\<lparr>qty := qty found + row_qty r, last_updated := ts\<rparr>"
  let ?e = "\<lparr>tx_item_id = ?i, tx_tyre_size = row_tyre_size r,
             tx_company = row_company r, tx_series = row_series r, change = row_qty r,
             reason = ''import_merge_signature'', timestamp = ts,
             tx_note = Some ''imported by signature''\<rparr>"
  have run: "upsert_row_no_id ts r c = insert_transaction ?e (update_where_id ?i ?f c)"
    using Some by (simp add: upsert_row_no_id_def)
  have "found \<in> set (items (pending c))"
    using Some find_Some_member by (fastforce simp: select_by_signature_def)
  then have fd: "find (\<lambda>x. item_id x = ?i) (items (pending c)) = Some found"
    using assms by (intro find_sorted_member)
  have it: "items (pending (upsert_row_no_id ts r c))
            = map (\<lambda>x. if item_id x = ?i then ?f x else x) (items (pending c))"
    by (simp only: run items_insert_transaction items_update_where_id)
  have tr: "transactions (pending (upsert_row_no_id ts r c)) = transactions (pending c) @ [?e]"
    by (simp only: run transactions_insert_transaction transactions_update_where_id)
  have q: "qty_of j (pending (upsert_row_no_id ts r c)) = qty_of j (pending c) + delta_sum j [?e]" for j
    using qty_of_update[OF it fd, of "row_qty r" j] by (simp add: delta_sum_single)
  have s: "sorted_wrt (\<lambda>a b. item_id a < item_id b) (items (pending (upsert_row_no_id ts r c)))"
    unfolding it using assms by (intro sorted_map_update) simp_all
  show ?thesis using tr q s by (intro exI[of _ ?e]) simp
qed

lemma ledger_fold:
  assumes step: "\<And>r c. r \<in> set rs \<Longrightarrow> sorted_wrt (\<lambda>a b. item_id a < item_id b) (items (pending c)) \<Longrightarrow>
            \<exists>e. transactions (pending (f r c)) = transactions (pending c) @ [e]
             \<and> change e = row_qty r
             \<and> (\<forall>j. qty_of j (pending (f r c)) = qty_of j (pending c) + delta_sum j [e])
             \<and> sorted_wrt (\<lambda>a b. item_id a < item_id b) (items (pending (f r c)))"
    and "sorted_wrt (\<lambda>a b. item_id a < item_id b) (items (pending c))"
  shows "\<exists>es. transactions (pending (fold f rs c)) = transactions (pending c) @ es
             \<and> map change es = map row_qty rs
             \<and> (\<forall>j. qty_of j (pending (fold f rs c)) = qty_of j (pending c) + delta_sum j es)
             \<and> sorted_wrt (\<lambda>a b. item_id a < item_id b) (items (pending (fold f rs c)))"
  using assms
proof (induction rs arbitrary: c)
  case Nil
  then show ?case by (simp add: delta_sum_def)
next
  case (Cons r rs)
  from Cons.prems(1)[of r c] Cons.prems(2)
  obtain e where e: "transactions (pending (f r c)) = transactions (pending c) @ [e]"
      "change e = row_qty r"
      "\<forall>j. qty_of j (pending (f r c)) = qty_of j (pending c) + delta_sum j [e]"
      "sorted_wrt (\<lambda>a b. item_id a < item_id b) (items (pending (f r c)))"
    by auto
  have "\<exists>es. transactions (pending (fold f rs (f r c))) = transactions (pending (f r c)) @ es
             \<and> map change es = map row_qty rs
             \<and> (\<forall>j. qty_of j (pending (fold f rs (f r c))) = qty_of j (pending (f r c)) + delta_sum j es)
             \<and> sorted_wrt (\<lambda>a b. item_id a < item_id b) (items (pending (fold f rs (f r c))))"
    using Cons.prems(1) e(4) by (intro Cons.IH) auto
  then obtain es where es: "transactions (pending (fold f rs (f r c))) = transactions (pending (f r c)) @ es"
      "map change es = map row_qty rs"
      "\<forall>j. qty_of j (pending (fold f rs (f r c))) = qty_of j (pending (f r c)) + delta_sum j es"
      "sorted_wrt (\<lambda>a b. item_id a < item_id b) (items (pending (fold f rs (f r c))))"
    by auto
  have d: "delta_sum j (e # es) = delta_sum j [e] + delta_sum j es" for j
    using delta_sum_append[of j "[e]" es] by simp
  show ?case
    using e es by (intro exI[of _ "e # es"]) (simp add: d)
qed

lemma ledger_loops:
  assumes "sorted_wrt (\<lambda>a b. item_id a < item_id b) (items (pending c))"
  shows "\<exists>es. transactions (pending (upsert_loops ts df c)) = transactions (pending c) @ es
             \<and> map change es = map row_qty (rows_with_id df @ rows_no_id df)
             \<and> (\<forall>j. qty_of j (pending (upsert_loops ts df c)) = qty_of j (pending c) + delta_sum j es)
             \<and> sorted_wrt (\<lambda>a b. item_id a < item_id b) (items (pending (upsert_loops ts df c)))"
proof -
  let ?c1 = "fold (upsert_row_with_id ts) (rows_with_id df) c"
  have "\<exists>es. transactions (pending ?c1) = transactions (pending c) @ es
             \<and> map change es = map row_qty (rows_with_id df)
             \<and> (\<forall>j. qty_of j (pending ?c1) = qty_of j (pending c) + delta_sum j es)
             \<and> sorted_wrt (\<lambda>a b. item_id a < item_id b) (items (pending ?c1))"
  proof (rule ledger_fold[OF _ assms])
    fix r and c' :: conn
    assume "r \<in> set (rows_with_id df)"
      and s: "sorted_wrt (\<lambda>a b. item_id a < item_id b) (items (pending c'))"
    then obtain i where "row_id r = Some i" by (auto simp: rows_with_id_def)
    then show "\<exists>e. transactions (pending (upsert_row_with_id ts r c')) = transactions (pending c') @ [e]
             \<and> change e = row_qty r
             \<and> (\<forall>j. qty_of j (pending (upsert_row_with_id ts r c')) = qty_of j (pending c') + delta_sum j [e])
             \<and> sorted_wrt (\<lambda>a b. item_id a < item_id b) (items (pending (upsert_row_with_id ts r c')))"
      using s by (rule with_id_step)
  qed
  then obtain es where es: "transactions (pending ?c1) = transactions (pending c) @ es"
      "map change es = map row_qty (rows_with_id df)"
      "\<forall>j. qty_of j (pending ?c1) = qty_of j (pending c) + delta_sum j es"
      "sorted_wrt (\<lambda>a b. item_id a < item_id b) (items (pending ?c1))"
    by auto
  let ?c2 = "fold (upsert_row_no_id ts) (rows_no_id df) ?c1"
  have "\<exists>fs. transactions (pending ?c2) = transactions (pending ?c1) @ fs
             \<and> map change fs = map row_qty (rows_no_id df)
             \<and> (\<forall>j. qty_of j (pending ?c2) = qty_of j (pending ?c1) + delta_sum j fs)
             \<and> sorted_wrt (\<lambda>a b. item_id a < item_id b) (items (pending ?c2))"
    by (rule ledger_fold[OF _ es(4)]) (rule no_id_step)
  then obtain fs where fs: "transactions (pending ?c2) = transactions (pending ?c1) @ fs"
      "map change fs = map row_qty (rows_no_id df)"
      "\<forall>j. qty_of j (pending ?c2) = qty_of j (pending ?c1) + delta_sum j fs"
      "sorted_wrt (\<lambda>a b. item_id a < item_id b) (items (pending ?c2))"
    by auto
  show ?thesis
    unfolding upsert_loops_def
    using es fs by (intro exI[of _ "es @ fs"]) (simp add: delta_sum_append)
qed

lemma logged_update:
  assumes "find (\<lambda>r. item_id r = i) (items d) = Some x"
    and "\<And>y. item_id (f y) = item_id y" and "qty (f x) = qty x + k"
    and "tx_item_id e = i" and "change e = k"
  shows "one_entry_logged d (close (commit (insert_transaction e (update_where_id i f (get_conn d))))) i k"
proof -
  let ?d1 = "close (commit (insert_transaction e (update_where_id i f (get_conn d))))"
  have it: "items ?d1 = map (\<lambda>r. if item_id r = i then f r else r) (items d)"
    by (simp add: conn_defs)
  have tr: "transactions ?d1 = transactions d @ [e]"
    by (simp add: conn_defs)
  have "qty_of j ?d1 = qty_of j d + (if j = i then k else 0)" for j
    using it assms(1,2,3) by (rule qty_of_update)
  then show ?thesis
    unfolding one_entry_logged_def using tr assms(4,5) by (intro exI[of _ e]) simp
qed

lemma logged_insert:
  assumes "find (\<lambda>r. item_id r = item_id r0) (items d) = None"
    and "tx_item_id e = item_id r0" and "change e = qty r0"
  shows "one_entry_logged d (close (commit (insert_transaction e (insert_item r0 (get_conn d)))))
           (item_id r0) (qty r0)"
proof -
  let ?d1 = "close (commit (insert_transaction e (insert_item r0 (get_conn d))))"
  have it: "items ?d1 = insert_sorted r0 (items d)"
    by (simp add: conn_defs)
  have tr: "transactions ?d1 = transactions d @ [e]"
    by (simp add: conn_defs)
  have "qty_of j ?d1 = qty_of j d + (if j = item_id r0 then qty r0 else 0)" for j
    using it assms(1) by (rule qty_of_insert)
  then show ?thesis
    unfolding one_entry_logged_def using tr assms(2,3) by (intro exI[of _ e]) simp
qed

lemma add_stock_logged:
  "(case add_stock ts id_p size_p company_p series_p q note_p d of (i, d1) \<Rightarrow> one_entry_logged d d1 i q)"
proof (cases id_p)
  case None
  let ?i = "next_rowid (items d)"
  have "\<forall>x \<in> set (items d). item_id x \<noteq> ?i"
    using next_rowid_fresh[of _ "items d"] by fastforce
  then have nf: "find (\<lambda>r. item_id r = ?i) (items d) = None"
    by (simp only: find_None_iff_id)
  show ?thesis
    using logged_insert[of "\<lparr>item_id = ?i, tyre_size = size_p, company = company_p,
                     series = series_p, qty = q, last_updated = ts\<rparr>" d
             "\<lparr>tx_item_id = ?i, tx_tyre_size = size_p, tx_company = company_p,
                  tx_series = series_p, change = q, reason = ''stock_in'',
                  timestamp = ts, tx_note = note_p\<rparr>"] nf None
    by (simp add: add_stock_def Let_def lastrowid_def get_conn_def)
next
  case (Some i)
  show ?thesis
  proof (cases "find (\<lambda>r. item_id r = i) (items d)")
    case None
    show ?thesis
      using logged_insert[of "\<lparr>item_id = i, tyre_size = size_p, company = company_p,
                     series = series_p, qty = q, last_updated = ts\<rparr>" d
             "\<lparr>tx_item_id = i, tx_tyre_size = size_p, tx_company = company_p,
                  tx_series = series_p, change = q, reason = ''stock_in'',
                  timestamp = ts, tx_note = note_p\<rparr>"] None \<open>id_p = Some i\<close>
      by (simp add: add_stock_def Let_def select_by_id_def get_conn_def)
  next
    case (Some r)
    show ?thesis
      using logged_update[of i d r "\<lambda>x. x\<lparr>qty := qty r + q, tyre_size := size_p, company := company_p,
                                    series := series_p, last_updated := ts\<rparr>" q
             "\<lparr>tx_item_id = i, tx_tyre_size = size_p, tx_company = company_p,
                  tx_series = series_p, change = q, reason = ''stock_in'',
                  timestamp = ts, tx_note = note_p\<rparr>"] Some \<open>id_p = Some i\<close>
      by (simp add: add_stock_def Let_def select_by_id_def get_conn_def)
  qed
qed

lemma remove_stock_by_id_logged:
  "(case remove_stock_by_id ts i q reason_p note_p d of
      (Inl e, d1) \<Rightarrow> d1 = d
    | (Inr u, d1) \<Rightarrow> one_entry_logged d d1 i (- q))"
proof (cases "find (\<lambda>r. item_id r = i) (items d)")
  case None
  then show ?thesis
    by (simp add: remove_stock_by_id_def Let_def select_by_id_def get_conn_def close_def)
next
  case (Some row)
  show ?thesis
  proof (cases "q > qty row")
    case True
    then show ?thesis
      using Some by (simp add: remove_stock_by_id_def Let_def select_by_id_def get_conn_def close_def)
  next
    case False
    then show ?thesis
      using logged_update[of i d row "\<lambda>x. x\<lparr>qty := qty row - q, last_updated := ts\<rparr>" "- q"
             "\<lparr>tx_item_id = i, tx_tyre_size = tyre_size row,
                         tx_company = company row, tx_series = series row, change = - q,
                         reason = reason_p, timestamp = ts, tx_note = note_p\<rparr>"] Some
      by (simp add: remove_stock_by_id_def Let_def select_by_id_def get_conn_def)
  qed
qed

lemma remove_stock_by_signature_logged:
  assumes "primary_key d"
  shows "(case remove_stock_by_signature ts size_p company_p series_p q reason_p note_p d of
      (Inl e, d1) \<Rightarrow> d1 = d
    | (Inr u, d1) \<Rightarrow> (\<exists>i. one_entry_logged d d1 i (- q)))"
proof (cases "find_item_by_signature size_p company_p series_p d")
  case None
  then show ?thesis by (simp add: remove_stock_by_signature_def)
next
  case (Some found)
  then have "found \<in> set (items d)"
    using find_Some_member by (fastforce simp: find_item_by_signature_def select_by_signature_def get_conn_def)
  then have fd: "find (\<lambda>r. item_id r = item_id found) (items d) = Some found"
    using assms by (intro find_sorted_member) (simp add: primary_key_def)
  show ?thesis
  proof (cases "q > qty found")
    case True
    then show ?thesis using Some by (simp add: remove_stock_by_signature_def)
  next
    case False
    then show ?thesis
      using logged_update[of "item_id found" d found "\<lambda>x. x\<lparr>qty := qty found - q, last_updated := ts\<rparr>" "- q"
             "\<lparr>tx_item_id = item_id found, tx_tyre_size = tyre_size found,
                         tx_company = company found, tx_series = series found,
                         change = - q, reason = reason_p, timestamp = ts,
                         tx_note = note_p\<rparr>"] Some fd
      by (auto simp add: remove_stock_by_signature_def Let_def)
  qed
qed

lemma rows_partition_length: "length (rows_with_id df) + length (rows_no_id df) = length df"
  by (induction df) (auto simp: rows_with_id_def rows_no_id_def)

lemma upsert_logged:
  assumes "primary_key d"
  shows "\<exists>es. transactions (upsert_items_from_df ts df d) = transactions d @ es
             \<and> length es = length df
             \<and> map change es = map row_qty (rows_with_id df @ rows_no_id df)
             \<and> (\<forall>j. qty_of j (upsert_items_from_df ts df d) = qty_of j d + delta_sum j es)"
proof -
  have "sorted_wrt (\<lambda>a b. item_id a < item_id b) (items (pending (get_conn d)))"
    using assms by (simp add: primary_key_def get_conn_def)
  from ledger_loops[OF this, of ts df]
  obtain es where es: "transactions (pending (upsert_loops ts df (get_conn d))) = transactions (pending (get_conn d)) @ es"
     "map change es = map row_qty (rows_with_id df @ rows_no_id df)"
     "\<forall>j. qty_of j (pending (upsert_loops ts df (get_conn d))) = qty_of j (pending (get_conn d)) + delta_sum j es"
    by auto
  have "length (map change es) = length (map row_qty (rows_with_id df @ rows_no_id df))"
    by (simp only: es(2))
  then have len: "length es = length df"
    using rows_partition_length[of df] by simp
  show ?thesis
    using es len by (intro exI[of _ es]) (simp add: upsert_items_pending get_conn_def)
qed

subsection \<open>The import as one fold over the partitioned rows\<close>

lemma pending_merge_row_cong:
  assumes "pending c = pending c'"
  shows "pending (merge_row ts r c) = pending (merge_row ts r c')"
proof (cases "row_id r")
  case None
  then show ?thesis using pending_no_id_cong[OF assms] by (simp add: merge_row_def)
next
  case (Some i)
  then show ?thesis using pending_with_id_cong[OF assms] by (simp add: merge_row_def)
qed

lemma committed_merge_row: "committed (merge_row ts r c) = committed c"
  by (simp add: merge_row_def committed_with_id committed_no_id)

lemma loops_as_fold:
  "upsert_loops ts df c = fold (merge_row ts) (rows_with_id df @ rows_no_id df) c"
proof -
  have a: "fold (upsert_row_with_id ts) (filter (\<lambda>r. row_id r \<noteq> None) xs) c'
         = fold (merge_row ts) (filter (\<lambda>r. row_id r \<noteq> None) xs) c'" for xs c'
    by (induction xs arbitrary: c') (simp_all add: merge_row_def)
  have b: "fold (upsert_row_no_id ts) (filter (\<lambda>r. row_id r = None) xs) c'
         = fold (merge_row ts) (filter (\<lambda>r. row_id r = None) xs) c'" for xs c'
    by (induction xs arbitrary: c') (simp_all add: merge_row_def)
  show ?thesis
    unfolding upsert_loops_def rows_with_id_def rows_no_id_def fold_append comp_def
    by (simp only: a b)
qed

lemma spec_merge_as_fold:
  "spec_merge_in_order ts rs d = pending (fold (merge_row ts) rs (get_conn d))"
proof (induction rs arbitrary: d)
  case Nil
  then show ?case by (simp add: spec_merge_in_order_def get_conn_def)
next
  case (Cons r rs)
  let ?c1 = "merge_row ts r (get_conn d)"
  have "spec_merge_in_order ts (r # rs) d = spec_merge_in_order ts rs (pending ?c1)"
    by (simp add: spec_merge_in_order_def close_def commit_def)
  also have "\<dots> = pending (fold (merge_row ts) rs (get_conn (pending ?c1)))"
    by (rule Cons.IH)
  also have "\<dots> = pending (fold (merge_row ts) rs ?c1)"
    by (intro pending_fold_cong[where f = "merge_row ts"] pending_merge_row_cong) (simp_all add: get_conn_def)
  finally show ?case by simp
qed

subsection \<open>Reading a frame\<close>

lemma fold_cols_None:
  "(fold (\<lambda>c m. m(f c \<mapsto> c)) cols m0 q = None) = (m0 q = None \<and> (\<forall>c \<in> set cols. f c \<noteq> q))"
  by (induction cols arbitrary: m0) auto

lemma normalize_cols_None:
  "(normalize_cols cols q = None) = (\<forall>c \<in> set cols. py_strip (py_lower c) \<noteq> q)"
  by (simp add: normalize_cols_def fold_cols_None)

lemma parse_row_cases:
  assumes "cols_map ''id'' = Some ic" and "cols_map ''tyre size'' = Some sc"
    and "cols_map ''quantity'' = Some qc"
  shows "(\<exists>r. parse_row cols_map row = Inr r) = (row qc = NaN \<or> py_int (row qc) \<noteq> None)"
    and "parse_row cols_map row = Inr r \<Longrightarrow> row sc = NaN \<Longrightarrow> row_tyre_size r = None"
  using assms
  by (auto simp: parse_row_def Let_def notna_def split: option.splits if_splits)

lemma parse_rows_succeeds:
  assumes "cols_map ''id'' = Some ic" and "cols_map ''tyre size'' = Some sc"
    and "cols_map ''quantity'' = Some qc"
  shows "(\<exists>rs. parse_rows cols_map rows = Inr rs)
         = list_all (\<lambda>row. row qc = NaN \<or> py_int (row qc) \<noteq> None) rows"
proof (induction rows)
  case Nil
  then show ?case by simp
next
  case (Cons row rows)
  show ?case
    using Cons.IH parse_row_cases(1)[OF assms, of row]
    by (auto split: sum.splits)
qed

lemma parse_rows_keeps_rows:
  assumes "cols_map ''id'' = Some ic" and "cols_map ''tyre size'' = Some sc"
    and "cols_map ''quantity'' = Some qc"
  shows "parse_rows cols_map rows = Inr rs \<Longrightarrow>
         length rs = length rows \<and>
         (\<forall>k < length rs. (rows ! k) sc = NaN \<longrightarrow> row_tyre_size (rs ! k) = None)"
proof (induction rows arbitrary: rs)
  case Nil
  then show ?case by simp
next
  case (Cons row rows)
  from Cons.prems obtain r rs' where r: "parse_row cols_map row = Inr r"
    and rs': "parse_rows cols_map rows = Inr rs'" and rs: "rs = r # rs'"
    by (auto split: sum.splits)
  have ih: "length rs' = length rows"
    "\<forall>k < length rs'. (rows ! k) sc = NaN \<longrightarrow> row_tyre_size (rs' ! k) = None"
    using Cons.IH[OF rs'] by auto
  have hd: "row sc = NaN \<Longrightarrow> row_tyre_size r = None"
    using parse_row_cases(2)[OF assms r] .
  show ?case
    unfolding rs using ih hd by (auto simp: nth_Cons split: nat.splits)
qed

lemma required_present_iff:
  "list_all (\<lambda>q. normalize_cols cols q \<noteq> None) required
   = (\<exists>ic sc qc. normalize_cols cols ''id'' = Some ic \<and> normalize_cols cols ''tyre size'' = Some sc
        \<and> normalize_cols cols ''quantity'' = Some qc)"
  by (auto simp: required_def)

lemma find_after_update:
  assumes "find (\<lambda>y. item_id y = i) xs = Some x" and "\<And>y. item_id (f y) = item_id y"
  shows "find (\<lambda>y. item_id y = i) (map (\<lambda>y. if item_id y = i then f y else y) xs) = Some (f x)"
proof -
  have "item_id x = i" using find_Some_member[OF assms(1)] by simp
  then show ?thesis
    by (simp add: find_map_update[of f, OF assms(2)] assms(1))
qed

lemma upsert_absent_size:
  assumes "row_tyre_size r = None"
  shows "(case row_id r of
            Some i \<Rightarrow> (\<exists>x. find (\<lambda>y. item_id y = i) (items (upsert_items_from_df ts [r] d)) = Some x
                          \<and> tyre_size x = None)
          | None \<Rightarrow> upsert_items_from_df ts [r] d =
              \<lparr>items = insert_sorted
                 \<lparr>item_id = next_rowid (items d), tyre_size = None, company = row_company r,
                  series = row_series r, qty = row_qty r, last_updated = ts\<rparr> (items d),
               transactions = transactions d @
                 [\<lparr>tx_item_id = next_rowid (items d), tx_tyre_size = None, tx_company = row_company r,
                   tx_series = row_series r, change = row_qty r, reason = ''import_new'',
                   timestamp = ts, tx_note = Some ''new row from excel''\<rparr>]\<rparr>)"
proof (cases "row_id r")
  case None
  have "select_by_signature None (row_company r) (row_series r) (get_conn d) = None"
    by (simp add: select_by_signature_def find_None_iff signature_where_True)
  then show ?thesis
    using None assms
    by (simp add: upsert_single upsert_row_no_id_def Let_def conn_defs)
next
  case (Some i)
  show ?thesis
  proof (cases "find (\<lambda>y. item_id y = i) (items d)")
    case None
    then have "\<forall>x \<in> set (items d). item_id x \<noteq> i" by (simp add: find_None_iff_id)
    then have "find (\<lambda>y. item_id y = i)
                 (insert_sorted \<lparr>item_id = i, tyre_size = None, company = row_company r,
                     series = row_series r, qty = row_qty r, last_updated = ts\<rparr> (items d))
               = Some \<lparr>item_id = i, tyre_size = None, company = row_company r,
                     series = row_series r, qty = row_qty r, last_updated = ts\<rparr>"
      using find_insert_sorted_same[of "items d" "\<lparr>item_id = i, tyre_size = None, company = row_company r,
                     series = row_series r, qty = row_qty r, last_updated = ts\<rparr>"] by simp
    then show ?thesis
      using None \<open>row_id r = Some i\<close> assms
      by (simp add: upsert_single upsert_row_with_id_def conn_defs)
  next
    case (Some found)
    have "find (\<lambda>y. item_id y = i)
            (map (\<lambda>y. if item_id y = i
                       then y\<lparr>tyre_size := None, company := row_company r, series := row_series r,
                              qty := qty found + row_qty r, last_updated := ts\<rparr>
                       else y) (items d))
          = Some (found\<lparr>tyre_size := None, company := row_company r, series := row_series r,
                              qty := qty found + row_qty r, last_updated := ts\<rparr>)"
      using Some by (intro find_after_update) simp_all
    then show ?thesis
      using Some \<open>row_id r = Some i\<close> assms
      by (simp add: upsert_single upsert_row_with_id_def conn_defs)
  qed
qed

subsection \<open>The primary key holds in every store the operations reach\<close>

lemma primary_key_init_db: "primary_key init_db"
  by (simp add: primary_key_def init_db_def)

lemma primary_key_upsert:
  assumes "primary_key d"
  shows "primary_key (upsert_items_from_df ts df d)"
proof -
  have "sorted_wrt (\<lambda>a b. item_id a < item_id b) (items (pending (get_conn d)))"
    using assms by (simp add: primary_key_def get_conn_def)
  from ledger_loops[OF this, of ts df] show ?thesis
    by (auto simp: primary_key_def upsert_items_pending)
qed

lemma primary_key_add_stock:
  assumes "primary_key d"
  shows "primary_key (snd (add_stock ts id_p size_p company_p series_p q note_p d))"
proof (cases id_p)
  case None
  have "\<forall>x \<in> set (items d). item_id x \<noteq> next_rowid (items d)"
    using next_rowid_fresh[of _ "items d"] by fastforce
  then show ?thesis
    using None assms
    by (simp add: add_stock_def Let_def conn_defs primary_key_def sorted_insert_sorted)
next
  case (Some i)
  show ?thesis
  proof (cases "find (\<lambda>r. item_id r = i) (items d)")
    case None
    then have "\<forall>x \<in> set (items d). item_id x \<noteq> i" by (simp add: find_None_iff_id)
    then show ?thesis
      using None \<open>id_p = Some i\<close> assms
      by (simp add: add_stock_def Let_def conn_defs primary_key_def sorted_insert_sorted)
  next
    case (Some r)
    then show ?thesis
      using \<open>id_p = Some i\<close> assms
      by (simp add: add_stock_def Let_def conn_defs primary_key_def sorted_map_update)
  qed
qed

lemma primary_key_remove_stock_by_id:
  assumes "primary_key d"
  shows "primary_key (snd (remove_stock_by_id ts i q reason_p note_p d))"
  using assms
  by (simp add: remove_stock_by_id_def Let_def conn_defs primary_key_def sorted_map_update
      split: option.splits)

lemma primary_key_remove_stock_by_signature:
  assumes "primary_key d"
  shows "primary_key (snd (remove_stock_by_signature ts size_p company_p series_p q reason_p note_p d))"
  using assms
  by (simp add: remove_stock_by_signature_def Let_def conn_defs primary_key_def sorted_map_update
      split: option.splits)

subsection \<open>A frame without a required column; the export\<close>

lemma missing_column_raises:
  assumes "q \<in> set required" and "\<forall>c \<in> set (df_columns df). py_strip (py_lower c) \<noteq> q"
  shows "read_excel_to_df df = Inl (ExcelMustContainColumns required (df_columns df))"
    and "import_uploaded_file ts df d = (Inl (ExcelMustContainColumns required (df_columns df)), d)"
proof -
  have "normalize_cols (df_columns df) q = None"
    using assms(2) by (simp only: normalize_cols_None)
  then have "\<not> list_all (\<lambda>r. normalize_cols (df_columns df) r \<noteq> None) required"
    using assms(1) by (auto simp: list_all_iff)
  then show a: "read_excel_to_df df = Inl (ExcelMustContainColumns required (df_columns df))"
    by (simp add: read_excel_to_df_def Let_def)
  show "import_uploaded_file ts df d = (Inl (ExcelMustContainColumns required (df_columns df)), d)"
    by (simp add: import_uploaded_file_def a)
qed

text \<open>None of the labels of the export is the required name \<open>tyre size\<close>.\<close>

lemma export_labels_lack_tyre_size:
  "\<forall>c \<in> set (df_columns (backup_db_to_excel d)). py_strip (py_lower c) \<noteq> ''tyre size''"
  by (simp add: backup_db_to_excel_def get_items_df_def py_strip_def py_lower_def lower_char_def
      is_upper_def is_space_def char_of_def bit_0)

lemma reimport_rows_double:
  assumes "primary_key d"
  shows "upsert_items_from_df ts (map record_row (items d)) d =
           \<lparr>items = map (\<lambda>x. x\<lparr>qty := 2 * qty x, last_updated := ts\<rparr>) (items d),
            transactions = transactions d @
              map (\<lambda>x. \<lparr>tx_item_id = item_id x, tx_tyre_size = tyre_size x, tx_company = company x,
                         tx_series = series x, change = qty x, reason = ''import_upsert'',
                         timestamp = ts, tx_note = Some ''import from excel''\<rparr>) (items d)\<rparr>"
proof -
  have sorted: "sorted_wrt (\<lambda>a b. item_id a < item_id b) (items d)"
    using assms by (simp add: primary_key_def)
  have with_id: "rows_with_id (map record_row xs) = map record_row xs" for xs
    by (induction xs) (simp_all add: rows_with_id_def record_row_def)
  have no_id: "rows_no_id (map record_row xs) = []" for xs
    by (induction xs) (simp_all add: rows_no_id_def record_row_def)
  have "pending (fold (upsert_row_with_id ts) (map record_row (items d)) (get_conn d)) =
     \<lparr>items = map (doubled ts) ([] @ items d),
      transactions = transactions (pending (get_conn d)) @ map (reimport_entry ts) (items d)\<rparr>"
    using sorted by (intro reimport_fold) (simp_all add: get_conn_def)
  then show ?thesis
    by (simp add: upsert_items_pending upsert_loops_def with_id no_id get_conn_def
        doubled_def reimport_entry_def)
qed

section \<open>The properties\<close>

text \<open>
  C5. Removing more than is on hand: when a record with identifier \<open>X\<close> holds quantity
  \<open>C\<close> and \<open>Q > C\<close>, \<open>remove_stock_by_id X Q\<close> fails with the not-enough-stock error that
  carries \<open>C\<close> and \<open>Q\<close>, and the store it leaves is the store it found: no quantity, no
  time stamp and no audit entry has changed.
\<close>

theorem remove_stock_by_id_not_enough_stock:
  assumes "primary_key d" and "x \<in> set (items d)" and "q > qty x"
  shows "remove_stock_by_id ts (item_id x) q reason_p note_p d = (Inl (NotEnoughStock (qty x) q), d)"
proof -
  have "select_by_id (item_id x) (get_conn d) = Some x"
    using assms(1,2) by (rule select_by_id_member)
  with assms(3) show ?thesis
    by (simp add: remove_stock_by_id_def Let_def close_def get_conn_def)
qed

theorem remove_stock_by_id_not_enough_stock_witness:
  "primary_key acme_store \<and> acme_item \<in> set (items acme_store) \<and> 11 > qty acme_item \<and>
   remove_stock_by_id ''2024-02-01T00:00:00'' 1 11 ''sale'' None acme_store
     = (Inl (NotEnoughStock 10 11), acme_store)"
  using remove_stock_by_id_not_enough_stock
          [of acme_store acme_item 11 "''2024-02-01T00:00:00''" "''sale''" None]
  by (simp add: acme_store_def acme_item_def primary_key_def)

text \<open>
  C6. \<open>add_stock\<close> without an identifier never looks for a matching signature: whatever
  the store holds, it inserts one new record under the identifier that the store assigns
  (one more than the largest in use), which no record had before; every record that
  was there stays as it was. Called twice with the same size, company, series and
  quantity, it leaves two records with different identifiers.
\<close>

theorem add_stock_without_id_inserts:
  "(case add_stock ts None size_p company_p series_p q note_p d of (i, d1) \<Rightarrow>
     i = next_rowid (items d) \<and>
     i \<notin> item_id ` set (items d) \<and>
     items d1 = insert_sorted \<lparr>item_id = i, tyre_size = size_p, company = company_p, series = series_p, qty = q, last_updated = ts\<rparr> (items d) \<and>
     set (items d1) = insert \<lparr>item_id = i, tyre_size = size_p, company = company_p, series = series_p, qty = q, last_updated = ts\<rparr> (set (items d)) \<and>
     length (items d1) = length (items d) + 1 \<and>
     (case add_stock ts_b None size_p company_p series_p q note_b d1 of (j, d2) \<Rightarrow>
        j \<noteq> i \<and>
        set (items d2) = {\<lparr>item_id = i, tyre_size = size_p, company = company_p, series = series_p, qty = q, last_updated = ts\<rparr>,
                          \<lparr>item_id = j, tyre_size = size_p, company = company_p, series = series_p, qty = q, last_updated = ts_b\<rparr>} \<union> set (items d) \<and>
        length (items d2) = length (items d) + 2))"
proof -
  let ?i = "next_rowid (items d)"
  let ?r = "\<lparr>item_id = ?i, tyre_size = size_p, company = company_p, series = series_p, qty = q, last_updated = ts\<rparr>"
  have fresh: "?i \<notin> item_id ` set (items d)"
    using next_rowid_fresh by fastforce
  have "?r \<in> set (insert_sorted ?r (items d))" by (simp add: set_insert_sorted)
  then have "item_id ?r < next_rowid (insert_sorted ?r (items d))" by (rule next_rowid_fresh)
  then have neq: "next_rowid (insert_sorted ?r (items d)) \<noteq> ?i" by simp
  show ?thesis
    using fresh neq
    by (auto simp: add_stock_def conn_defs Let_def set_insert_sorted length_insert_sorted)
qed

theorem add_stock_without_id_inserts_witness:
  "add_stock ''t1'' None (Some ''155 70 R13'') (Some ''Acme'') None 10 None acme_store =
     (2, \<lparr>items = [acme_item,
                   \<lparr>item_id = 2, tyre_size = Some ''155 70 R13'', company = Some ''Acme'', series = None,
                    qty = 10, last_updated = ''t1''\<rparr>],
          transactions =
            [\<lparr>tx_item_id = 2, tx_tyre_size = Some ''155 70 R13'', tx_company = Some ''Acme'',
              tx_series = None, change = 10, reason = ''stock_in'', timestamp = ''t1'',
              tx_note = None\<rparr>]\<rparr>)
   \<and> fst (add_stock ''t2'' None (Some ''155 70 R13'') (Some ''Acme'') None 10 None
            (snd (add_stock ''t1'' None (Some ''155 70 R13'') (Some ''Acme'') None 10 None acme_store))) = 3"
  using add_stock_without_id_inserts
          [where ts = "''t1''" and size_p = "Some ''155 70 R13''" and company_p = "Some ''Acme''"
             and series_p = None and q = 10 and note_p = None and d = acme_store
             and ts_b = "''t2''" and note_b = None]
  by (simp add: add_stock_def conn_defs Let_def acme_store_def acme_item_def next_rowid_def)

text \<open>
  C4. A row whose identifier is that of an existing record: the import overwrites the
  record's size, company and series with the row's values (an absent value of the row
  makes the field absent), adds the row's quantity to the record's, sets the time stamp,
  and appends one audit entry with the row's quantity as delta and the reason
  \<open>import_upsert\<close>; no other record changes. The same holds for such a row at the head of
  a longer import: the remaining rows are then imported into the store that this row
  leaves.
\<close>

theorem upsert_identifier_found_overwrites:
  assumes "primary_key d" and "x \<in> set (items d)" and "row_id r = Some (item_id x)"
  shows "upsert_items_from_df ts [r] d =
           \<lparr>items = map (\<lambda>y. if item_id y = item_id x
                               then \<lparr>item_id = item_id x, tyre_size = row_tyre_size r, company = row_company r,
                                     series = row_series r, qty = qty x + row_qty r, last_updated = ts\<rparr>
                               else y) (items d),
            transactions = transactions d @
              [\<lparr>tx_item_id = item_id x, tx_tyre_size = row_tyre_size r, tx_company = row_company r,
                tx_series = row_series r, change = row_qty r, reason = ''import_upsert'',
                timestamp = ts, tx_note = Some ''import from excel''\<rparr>]\<rparr>
         \<and> upsert_items_from_df ts (r # rest) d = upsert_items_from_df ts rest (upsert_items_from_df ts [r] d)"
proof -
  have sel: "select_by_id (item_id x) (get_conn d) = Some x"
    using assms(1,2) by (rule select_by_id_member)
  have one: "upsert_items_from_df ts [r] d =
           \<lparr>items = map (\<lambda>y. if item_id y = item_id x
                               then \<lparr>item_id = item_id x, tyre_size = row_tyre_size r, company = row_company r,
                                     series = row_series r, qty = qty x + row_qty r, last_updated = ts\<rparr>
                               else y) (items d),
            transactions = transactions d @
              [\<lparr>tx_item_id = item_id x, tx_tyre_size = row_tyre_size r, tx_company = row_company r,
                tx_series = row_series r, change = row_qty r, reason = ''import_upsert'',
                timestamp = ts, tx_note = Some ''import from excel''\<rparr>]\<rparr>"
    using sel assms(3)
    by (simp add: upsert_single upsert_row_with_id_def conn_defs)
  have head: "upsert_items_from_df ts (r # rest) d = upsert_items_from_df ts rest (upsert_items_from_df ts [r] d)"
    using assms(3) by (intro upsert_with_id_head) simp
  show ?thesis using one head by blast
qed

theorem upsert_identifier_found_overwrites_witness:
  "primary_key acme_store \<and> acme_item \<in> set (items acme_store) \<and>
   upsert_items_from_df ''t1''
     [\<lparr>row_id = Some 1, row_tyre_size = Some ''185 65 R14'', row_company = None, row_series = None,
       row_qty = 4\<rparr>] acme_store =
     \<lparr>items = [\<lparr>item_id = 1, tyre_size = Some ''185 65 R14'', company = None, series = None,
                qty = 14, last_updated = ''t1''\<rparr>],
      transactions =
        [\<lparr>tx_item_id = 1, tx_tyre_size = Some ''185 65 R14'', tx_company = None, tx_series = None,
          change = 4, reason = ''import_upsert'', timestamp = ''t1'',
          tx_note = Some ''import from excel''\<rparr>]\<rparr>"
  using upsert_identifier_found_overwrites
          [where d = acme_store and x = acme_item and ts = "''t1''" and rest = "[]"
             and r = "\<lparr>row_id = Some 1, row_tyre_size = Some ''185 65 R14'', row_company = None,
                        row_series = None, row_qty = 4\<rparr>"]
  by (simp add: acme_store_def acme_item_def primary_key_def)

text \<open>
  C3, as the code has it. A row without identifier whose size is present, and whose size,
  company and series are those of some existing record (an absent company or series
  matching only an absent one): among the records with that signature, the one with the
  least identifier gets the row's quantity added and its time stamp set; its size,
  company and series stay, no other record changes, and one audit entry with the reason
  \<open>import_merge_signature\<close> and the row's quantity as delta is appended.
\<close>

theorem upsert_signature_found_adds:
  assumes "primary_key d" and "row_id r = None" and "row_tyre_size r = Some s"
    and "x \<in> set (items d)" and "tyre_size x = Some s"
    and "company x = row_company r" and "series x = row_series r"
  shows "\<exists>m \<in> set (items d).
           tyre_size m = Some s \<and> company m = row_company r \<and> series m = row_series r \<and>
           item_id m \<le> item_id x \<and>
           upsert_items_from_df ts [r] d =
             \<lparr>items = map (\<lambda>y. if y = m then m\<lparr>qty := qty m + row_qty r, last_updated := ts\<rparr> else y) (items d),
              transactions = transactions d @
                [\<lparr>tx_item_id = item_id m, tx_tyre_size = row_tyre_size r, tx_company = row_company r,
                  tx_series = row_series r, change = row_qty r, reason = ''import_merge_signature'',
                  timestamp = ts, tx_note = Some ''imported by signature''\<rparr>]\<rparr>"
proof -
  let ?P = "\<lambda>y. signature_where (row_tyre_size r) (row_company r) (row_series r) y = Some True"
  have Px: "?P x" using assms(3,5,6,7) by (simp add: signature_where_True)
  then have "find ?P (items d) \<noteq> None" using assms(4) by (auto simp: find_None_iff)
  then obtain m where m: "find ?P (items d) = Some m" by auto
  then have mem: "m \<in> set (items d)" and Pm: "?P m" using find_Some_member[OF m] by auto
  have sorted: "sorted_wrt (\<lambda>a b. item_id a < item_id b) (items d)"
    using assms(1) by (simp add: primary_key_def)
  have le: "item_id m \<le> item_id x"
    using find_sorted_least[OF sorted m assms(4) Px] .
  have sel: "select_by_signature (row_tyre_size r) (row_company r) (row_series r) (get_conn d) = Some m"
    using m by (simp add: select_by_signature_def get_conn_def)
  have "upsert_items_from_df ts [r] d =
             \<lparr>items = map (\<lambda>y. if item_id y = item_id m then y\<lparr>qty := qty m + row_qty r, last_updated := ts\<rparr> else y) (items d),
              transactions = transactions d @
                [\<lparr>tx_item_id = item_id m, tx_tyre_size = row_tyre_size r, tx_company = row_company r,
                  tx_series = row_series r, change = row_qty r, reason = ''import_merge_signature'',
                  timestamp = ts, tx_note = Some ''imported by signature''\<rparr>]\<rparr>"
    using sel assms(2)
    by (simp add: upsert_single upsert_row_no_id_def get_conn_def commit_def close_def update_where_id_def insert_transaction_def)
  then have "upsert_items_from_df ts [r] d =
             \<lparr>items = map (\<lambda>y. if y = m then m\<lparr>qty := qty m + row_qty r, last_updated := ts\<rparr> else y) (items d),
              transactions = transactions d @
                [\<lparr>tx_item_id = item_id m, tx_tyre_size = row_tyre_size r, tx_company = row_company r,
                  tx_series = row_series r, change = row_qty r, reason = ''import_merge_signature'',
                  timestamp = ts, tx_note = Some ''imported by signature''\<rparr>]\<rparr>"
    using map_update_unique[OF sorted mem, of "\<lambda>y. y\<lparr>qty := qty m + row_qty r, last_updated := ts\<rparr>"]
    by simp
  then show ?thesis
    using mem Pm le assms(3) by (auto simp: signature_where_True)
qed

theorem upsert_signature_found_adds_witness:
  "primary_key acme_store \<and> acme_item \<in> set (items acme_store) \<and>
   tyre_size acme_item = Some ''155 70 R13'' \<and> company acme_item = Some ''Acme'' \<and> series acme_item = None \<and>
   upsert_items_from_df ''t1''
     [\<lparr>row_id = None, row_tyre_size = Some ''155 70 R13'', row_company = Some ''Acme'', row_series = None,
       row_qty = 5\<rparr>] acme_store =
     \<lparr>items = [\<lparr>item_id = 1, tyre_size = Some ''155 70 R13'', company = Some ''Acme'', series = None,
                qty = 15, last_updated = ''t1''\<rparr>],
      transactions =
        [\<lparr>tx_item_id = 1, tx_tyre_size = Some ''155 70 R13'', tx_company = Some ''Acme'', tx_series = None,
          change = 5, reason = ''import_merge_signature'', timestamp = ''t1'',
          tx_note = Some ''imported by signature''\<rparr>]\<rparr>"
  using upsert_signature_found_adds
          [where d = acme_store and x = acme_item and ts = "''t1''" and s = "''155 70 R13''"
             and r = "\<lparr>row_id = None, row_tyre_size = Some ''155 70 R13'', row_company = Some ''Acme'',
                        row_series = None, row_qty = 5\<rparr>"]
  by (simp add: acme_store_def acme_item_def primary_key_def)

text \<open>
  C3 does not hold of a row whose size is absent: the query compares the size with \<open>=\<close>,
  which is never true of \<open>NULL\<close>. A record without size and a row with the same
  signature: the record keeps its quantity 5, and the row becomes a second record, with
  the reason \<open>import_new\<close>.
\<close>

theorem upsert_signature_absent_size_counterexample:
  "upsert_items_from_df ''t1''
     [\<lparr>row_id = None, row_tyre_size = None, row_company = Some ''Acme'', row_series = None, row_qty = 3\<rparr>]
     \<lparr>items = [\<lparr>item_id = 1, tyre_size = None, company = Some ''Acme'', series = None, qty = 5,
                last_updated = ''t0''\<rparr>],
      transactions = []\<rparr> =
   \<lparr>items = [\<lparr>item_id = 1, tyre_size = None, company = Some ''Acme'', series = None, qty = 5,
              last_updated = ''t0''\<rparr>,
             \<lparr>item_id = 2, tyre_size = None, company = Some ''Acme'', series = None, qty = 3,
              last_updated = ''t1''\<rparr>],
    transactions =
      [\<lparr>tx_item_id = 2, tx_tyre_size = None, tx_company = Some ''Acme'', tx_series = None, change = 3,
        reason = ''import_new'', timestamp = ''t1'', tx_note = Some ''new row from excel''\<rparr>]\<rparr>"
  by (simp add: upsert_single upsert_row_no_id_def conn_defs next_rowid_def signature_where_True Let_def)

text \<open>
  C9, as the code has it. Two rows without identifier, with the same signature and a
  present size, and quantities \<open>q1\<close> and \<open>q2\<close>, imported into the empty store: the second
  row finds the record that the first one inserted. The store ends with one record, of
  quantity \<open>q1 + q2\<close>, and two audit entries: \<open>import_new\<close> with delta \<open>q1\<close>, then
  \<open>import_merge_signature\<close> with delta \<open>q2\<close>.
\<close>

theorem upsert_two_rows_same_signature:
  "upsert_items_from_df ts
     [\<lparr>row_id = None, row_tyre_size = Some s, row_company = co, row_series = se, row_qty = q1\<rparr>,
      \<lparr>row_id = None, row_tyre_size = Some s, row_company = co, row_series = se, row_qty = q2\<rparr>]
     init_db =
   \<lparr>items = [\<lparr>item_id = 1, tyre_size = Some s, company = co, series = se, qty = q1 + q2, last_updated = ts\<rparr>],
    transactions =
      [\<lparr>tx_item_id = 1, tx_tyre_size = Some s, tx_company = co, tx_series = se, change = q1,
        reason = ''import_new'', timestamp = ts, tx_note = Some ''new row from excel''\<rparr>,
       \<lparr>tx_item_id = 1, tx_tyre_size = Some s, tx_company = co, tx_series = se, change = q2,
        reason = ''import_merge_signature'', timestamp = ts, tx_note = Some ''imported by signature''\<rparr>]\<rparr>"
  by (simp add: upsert_items_from_df_def upsert_loops_def rows_with_id_def rows_no_id_def init_db_def
      upsert_row_no_id_def conn_defs next_rowid_def signature_where_True Let_def)

theorem upsert_two_rows_same_signature_witness:
  "upsert_items_from_df ''t1''
     [\<lparr>row_id = None, row_tyre_size = Some ''155 70 R13'', row_company = Some ''Acme'', row_series = None, row_qty = 10\<rparr>,
      \<lparr>row_id = None, row_tyre_size = Some ''155 70 R13'', row_company = Some ''Acme'', row_series = None, row_qty = 5\<rparr>]
     init_db =
   \<lparr>items = [\<lparr>item_id = 1, tyre_size = Some ''155 70 R13'', company = Some ''Acme'', series = None, qty = 15, last_updated = ''t1''\<rparr>],
    transactions =
      [\<lparr>tx_item_id = 1, tx_tyre_size = Some ''155 70 R13'', tx_company = Some ''Acme'', tx_series = None, change = 10,
        reason = ''import_new'', timestamp = ''t1'', tx_note = Some ''new row from excel''\<rparr>,
       \<lparr>tx_item_id = 1, tx_tyre_size = Some ''155 70 R13'', tx_company = Some ''Acme'', tx_series = None, change = 5,
        reason = ''import_merge_signature'', timestamp = ''t1'', tx_note = Some ''imported by signature''\<rparr>]\<rparr>"
  using upsert_two_rows_same_signature
          [where ts = "''t1''" and s = "''155 70 R13''" and co = "Some ''Acme''" and se = None
             and ?q1.0 = 10 and ?q2.0 = 5]
  by simp

text \<open>
  C9 does not hold when the size of the two rows is absent: the second row does not find
  the first, and the store ends with two records and two \<open>import_new\<close> entries.
\<close>

theorem upsert_two_rows_absent_size_counterexample:
  "upsert_items_from_df ''t''
     [\<lparr>row_id = None, row_tyre_size = None, row_company = Some ''Acme'', row_series = None, row_qty = 2\<rparr>,
      \<lparr>row_id = None, row_tyre_size = None, row_company = Some ''Acme'', row_series = None, row_qty = 3\<rparr>]
     init_db =
   \<lparr>items = [\<lparr>item_id = 1, tyre_size = None, company = Some ''Acme'', series = None, qty = 2, last_updated = ''t''\<rparr>,
             \<lparr>item_id = 2, tyre_size = None, company = Some ''Acme'', series = None, qty = 3, last_updated = ''t''\<rparr>],
    transactions =
      [\<lparr>tx_item_id = 1, tx_tyre_size = None, tx_company = Some ''Acme'', tx_series = None, change = 2,
        reason = ''import_new'', timestamp = ''t'', tx_note = Some ''new row from excel''\<rparr>,
       \<lparr>tx_item_id = 2, tx_tyre_size = None, tx_company = Some ''Acme'', tx_series = None, change = 3,
        reason = ''import_new'', timestamp = ''t'', tx_note = Some ''new row from excel''\<rparr>]\<rparr>"
  by (simp add: upsert_items_from_df_def upsert_loops_def rows_with_id_def rows_no_id_def init_db_def
      upsert_row_no_id_def conn_defs next_rowid_def signature_where_True Let_def)

text \<open>
  C1. Every successful change of a quantity comes with its audit entry, written on the
  same connection and committed by the same \<open>conn.commit()\<close>. An import of the frame
  \<open>df\<close> appends one entry per row, each with the row's quantity as delta, and for every
  identifier the quantity on hand has changed by the sum of the deltas of the new entries
  that name it. \<open>add_stock\<close>, and a successful \<open>remove_stock_by_id\<close> or
  \<open>remove_stock_by_signature\<close>, append exactly one entry, whose delta is the change of the
  quantity of the record it names, and change no other quantity; a removal that fails
  leaves the store as it was. (A record that is inserted counts as changing from 0.)
\<close>

theorem every_quantity_change_is_audited:
  assumes "primary_key d"
  shows "(\<exists>es. transactions (upsert_items_from_df ts df d) = transactions d @ es
             \<and> length es = length df
             \<and> map change es = map row_qty (rows_with_id df @ rows_no_id df)
             \<and> (\<forall>j. qty_of j (upsert_items_from_df ts df d) = qty_of j d + delta_sum j es))
       \<and> (case add_stock ts id_p size_p company_p series_p q note_p d of
             (i, d1) \<Rightarrow> one_entry_logged d d1 i q)
       \<and> (case remove_stock_by_id ts i q reason_p note_p d of
             (Inl e, d1) \<Rightarrow> d1 = d
           | (Inr u, d1) \<Rightarrow> one_entry_logged d d1 i (- q))
       \<and> (case remove_stock_by_signature ts size_p company_p series_p q reason_p note_p d of
             (Inl e, d1) \<Rightarrow> d1 = d
           | (Inr u, d1) \<Rightarrow> (\<exists>i. one_entry_logged d d1 i (- q)))"
  by (intro conjI upsert_logged[OF assms] add_stock_logged remove_stock_by_id_logged
      remove_stock_by_signature_logged[OF assms])

theorem every_quantity_change_is_audited_witness:
  "primary_key two_item_store
   \<and> (\<exists>es. transactions (upsert_items_from_df ''t1''
                [\<lparr>row_id = None, row_tyre_size = Some ''185 65 R14'', row_company = None,
                  row_series = Some ''Eco'', row_qty = 2\<rparr>,
                 \<lparr>row_id = Some 1, row_tyre_size = Some ''155 70 R13'', row_company = Some ''Acme'',
                  row_series = None, row_qty = 7\<rparr>] two_item_store) = transactions two_item_store @ es
        \<and> map change es = [7, 2]
        \<and> qty_of 1 (upsert_items_from_df ''t1''
                [\<lparr>row_id = None, row_tyre_size = Some ''185 65 R14'', row_company = None,
                  row_series = Some ''Eco'', row_qty = 2\<rparr>,
                 \<lparr>row_id = Some 1, row_tyre_size = Some ''155 70 R13'', row_company = Some ''Acme'',
                  row_series = None, row_qty = 7\<rparr>] two_item_store)
            = qty_of 1 two_item_store + delta_sum 1 es)
   \<and> (case add_stock ''t1'' (Some 4) (Some ''185 65 R14'') None (Some ''Eco'') 3 None two_item_store of
         (i, d1) \<Rightarrow> one_entry_logged two_item_store d1 i 3)
   \<and> (case remove_stock_by_id ''t1'' 1 3 ''sale'' None two_item_store of
         (Inl e, d1) \<Rightarrow> d1 = two_item_store
       | (Inr u, d1) \<Rightarrow> one_entry_logged two_item_store d1 1 (- 3))
   \<and> (case remove_stock_by_signature ''t1'' (Some ''185 65 R14'') None (Some ''Eco'') 3 ''sale'' None
               two_item_store of
         (Inl e, d1) \<Rightarrow> d1 = two_item_store
       | (Inr u, d1) \<Rightarrow> (\<exists>i. one_entry_logged two_item_store d1 i (- 3)))"
proof -
  have pk: "primary_key two_item_store"
    by (simp add: primary_key_def two_item_store_def acme_item_def eco_item_def)
  let ?df = "[\<lparr>row_id = None, row_tyre_size = Some ''185 65 R14'', row_company = None,
                  row_series = Some ''Eco'', row_qty = 2\<rparr>,
                 \<lparr>row_id = Some 1, row_tyre_size = Some ''155 70 R13'', row_company = Some ''Acme'',
                  row_series = None, row_qty = 7\<rparr>]"
  have rows: "map row_qty (rows_with_id ?df @ rows_no_id ?df) = [7, 2]"
    by (simp add: rows_with_id_def rows_no_id_def)
  note inst = every_quantity_change_is_audited[OF pk, where ts = "''t1''" and df = ?df and q = 3
         and id_p = "Some 4" and size_p = "Some ''185 65 R14''" and company_p = None
         and series_p = "Some ''Eco''" and note_p = None and i = 1 and reason_p = "''sale''"]
  from inst obtain es where es:
      "transactions (upsert_items_from_df ''t1'' ?df two_item_store) = transactions two_item_store @ es"
      "map change es = map row_qty (rows_with_id ?df @ rows_no_id ?df)"
      "\<forall>j. qty_of j (upsert_items_from_df ''t1'' ?df two_item_store) = qty_of j two_item_store + delta_sum j es"
    by blast
  have A: "\<exists>es. transactions (upsert_items_from_df ''t1'' ?df two_item_store) = transactions two_item_store @ es
        \<and> map change es = [7, 2]
        \<and> qty_of 1 (upsert_items_from_df ''t1'' ?df two_item_store)
            = qty_of 1 two_item_store + delta_sum 1 es"
  proof (intro exI[of _ es] conjI)
    show "transactions (upsert_items_from_df ''t1'' ?df two_item_store) = transactions two_item_store @ es"
      by (rule es(1))
    show "map change es = [7, 2]"
      using es(2) unfolding rows .
    show "qty_of 1 (upsert_items_from_df ''t1'' ?df two_item_store)
            = qty_of 1 two_item_store + delta_sum 1 es"
      using es(3) by (rule spec)
  qed
  show ?thesis
    by (intro conjI pk A inst[THEN conjunct2, THEN conjunct1]
        inst[THEN conjunct2, THEN conjunct2, THEN conjunct1]
        inst[THEN conjunct2, THEN conjunct2, THEN conjunct2])
qed

text \<open>
  C2, as the code has it. The import does not take the rows in the order of the
  sequence: it takes the rows that carry an identifier first, in their order, and then
  the rows without identifier, in their order; its result is that of the row-by-row merge
  applied to the sequence rearranged in this way. All rows are written on one connection,
  which is committed once, after the last row: after any number \<open>k\<close> of rows, the committed
  store is still the store the import started from.
\<close>

theorem upsert_partitioned_order_single_commit:
  "upsert_items_from_df ts df d = spec_merge_in_order ts (rows_with_id df @ rows_no_id df) d
   \<and> upsert_items_from_df ts df d
       = close (commit (fold (merge_row ts) (rows_with_id df @ rows_no_id df) (get_conn d)))
   \<and> committed (fold (merge_row ts) (take k (rows_with_id df @ rows_no_id df)) (get_conn d)) = d"
proof -
  have a: "upsert_items_from_df ts df d = spec_merge_in_order ts (rows_with_id df @ rows_no_id df) d"
    by (simp only: spec_merge_as_fold upsert_items_pending loops_as_fold)
  have b: "upsert_items_from_df ts df d
       = close (commit (fold (merge_row ts) (rows_with_id df @ rows_no_id df) (get_conn d)))"
    by (simp only: upsert_items_from_df_def loops_as_fold)
  have "committed (fold (merge_row ts) rs (get_conn d)) = d" for rs
    by (simp add: committed_fold[where f = "merge_row ts"] committed_merge_row get_conn_def)
  then have c: "committed (fold (merge_row ts) (take k (rows_with_id df @ rows_no_id df)) (get_conn d)) = d" .
  show ?thesis by (intro conjI a b c)
qed

theorem upsert_partitioned_order_single_commit_witness:
  "upsert_items_from_df ''t1''
     [\<lparr>row_id = None, row_tyre_size = Some ''155 70 R13'', row_company = Some ''Acme'', row_series = None, row_qty = 5\<rparr>,
      \<lparr>row_id = Some 1, row_tyre_size = Some ''185 65 R14'', row_company = None, row_series = None, row_qty = 10\<rparr>]
     init_db
   = spec_merge_in_order ''t1''
     [\<lparr>row_id = Some 1, row_tyre_size = Some ''185 65 R14'', row_company = None, row_series = None, row_qty = 10\<rparr>,
      \<lparr>row_id = None, row_tyre_size = Some ''155 70 R13'', row_company = Some ''Acme'', row_series = None, row_qty = 5\<rparr>]
     init_db"
  using upsert_partitioned_order_single_commit
     [where ts = "''t1''" and d = init_db and k = 1 and df =
       "[\<lparr>row_id = None, row_tyre_size = Some ''155 70 R13'', row_company = Some ''Acme'', row_series = None, row_qty = 5\<rparr>,
      \<lparr>row_id = Some 1, row_tyre_size = Some ''185 65 R14'', row_company = None, row_series = None, row_qty = 10\<rparr>]"]
  by (simp add: rows_with_id_def rows_no_id_def)

text \<open>
  C2 does not hold as stated. A row without identifier followed by a row with identifier
  1, imported into the empty store: the code takes the second row first and ends with two
  records, where the merge in the order of the sequence ends with one record of quantity
  15. And once the first row has been processed, it is pending on the connection, not
  committed.
\<close>

theorem upsert_original_order_counterexample:
  "upsert_items_from_df ''t1''
     [\<lparr>row_id = None, row_tyre_size = Some ''155 70 R13'', row_company = Some ''Acme'', row_series = None, row_qty = 5\<rparr>,
      \<lparr>row_id = Some 1, row_tyre_size = Some ''185 65 R14'', row_company = None, row_series = None, row_qty = 10\<rparr>]
     init_db
   = \<lparr>items = [\<lparr>item_id = 1, tyre_size = Some ''185 65 R14'', company = None, series = None, qty = 10, last_updated = ''t1''\<rparr>,
               \<lparr>item_id = 2, tyre_size = Some ''155 70 R13'', company = Some ''Acme'', series = None, qty = 5, last_updated = ''t1''\<rparr>],
      transactions =
        [\<lparr>tx_item_id = 1, tx_tyre_size = Some ''185 65 R14'', tx_company = None, tx_series = None, change = 10,
          reason = ''import_upsert'', timestamp = ''t1'', tx_note = Some ''import from excel''\<rparr>,
         \<lparr>tx_item_id = 2, tx_tyre_size = Some ''155 70 R13'', tx_company = Some ''Acme'', tx_series = None, change = 5,
          reason = ''import_new'', timestamp = ''t1'', tx_note = Some ''new row from excel''\<rparr>]\<rparr>
   \<and> spec_merge_in_order ''t1''
     [\<lparr>row_id = None, row_tyre_size = Some ''155 70 R13'', row_company = Some ''Acme'', row_series = None, row_qty = 5\<rparr>,
      \<lparr>row_id = Some 1, row_tyre_size = Some ''185 65 R14'', row_company = None, row_series = None, row_qty = 10\<rparr>]
     init_db
   = \<lparr>items = [\<lparr>item_id = 1, tyre_size = Some ''185 65 R14'', company = None, series = None, qty = 15, last_updated = ''t1''\<rparr>],
      transactions =
        [\<lparr>tx_item_id = 1, tx_tyre_size = Some ''155 70 R13'', tx_company = Some ''Acme'', tx_series = None, change = 5,
          reason = ''import_new'', timestamp = ''t1'', tx_note = Some ''new row from excel''\<rparr>,
         \<lparr>tx_item_id = 1, tx_tyre_size = Some ''185 65 R14'', tx_company = None, tx_series = None, change = 10,
          reason = ''import_upsert'', timestamp = ''t1'', tx_note = Some ''import from excel''\<rparr>]\<rparr>
   \<and> committed (upsert_row_with_id ''t1''
        \<lparr>row_id = Some 1, row_tyre_size = Some ''185 65 R14'', row_company = None, row_series = None, row_qty = 10\<rparr>
        (get_conn init_db)) = init_db
   \<and> pending (upsert_row_with_id ''t1''
        \<lparr>row_id = Some 1, row_tyre_size = Some ''185 65 R14'', row_company = None, row_series = None, row_qty = 10\<rparr>
        (get_conn init_db)) \<noteq> init_db"
  by (simp add: upsert_items_from_df_def upsert_loops_def rows_with_id_def rows_no_id_def init_db_def
      spec_merge_in_order_def merge_row_def
      upsert_row_no_id_def upsert_row_with_id_def conn_defs next_rowid_def signature_where_True Let_def)

text \<open>
  C8, as the code has it. The export of the items table carries the labels of the table's
  columns, \<open>id\<close>, \<open>tyre_size\<close>, \<open>company\<close>, \<open>series\<close>, \<open>qty\<close>, \<open>last_updated\<close>, and the import
  looks for \<open>tyre size\<close> and \<open>quantity\<close>: whatever the store holds, \<open>read_excel_to_df\<close>
  refuses the export, and importing it leaves the store as it was. What doubles the
  quantities is the merge itself, given the rows that carry each record's identifier,
  size, company, series and quantity: every record is found by its identifier, its
  quantity is doubled, its size, company and series are overwritten with their own values
  and so stay, and one \<open>import_upsert\<close> entry per record is appended.
\<close>

theorem export_refused_and_own_rows_double:
  assumes "primary_key d"
  shows "read_excel_to_df (backup_db_to_excel d)
           = Inl (ExcelMustContainColumns [''id'', ''tyre size'', ''quantity'']
                    [''id'', ''tyre_size'', ''company'', ''series'', ''qty'', ''last_updated''])
       \<and> import_uploaded_file ts (backup_db_to_excel d) d
           = (Inl (ExcelMustContainColumns [''id'', ''tyre size'', ''quantity'']
                    [''id'', ''tyre_size'', ''company'', ''series'', ''qty'', ''last_updated'']), d)
       \<and> upsert_items_from_df ts
             (map (\<lambda>x. \<lparr>row_id = Some (item_id x), row_tyre_size = tyre_size x,
                         row_company = company x, row_series = series x, row_qty = qty x\<rparr>) (items d)) d =
           \<lparr>items = map (\<lambda>x. x\<lparr>qty := 2 * qty x, last_updated := ts\<rparr>) (items d),
            transactions = transactions d @
              map (\<lambda>x. \<lparr>tx_item_id = item_id x, tx_tyre_size = tyre_size x, tx_company = company x,
                         tx_series = series x, change = qty x, reason = ''import_upsert'',
                         timestamp = ts, tx_note = Some ''import from excel''\<rparr>) (items d)\<rparr>"
proof (intro conjI)
  have req: "''tyre size'' \<in> set required" by (simp add: required_def)
  have cols: "df_columns (backup_db_to_excel d) = [''id'', ''tyre_size'', ''company'', ''series'', ''qty'', ''last_updated'']"
    by (simp add: backup_db_to_excel_def get_items_df_def)
  show "read_excel_to_df (backup_db_to_excel d)
           = Inl (ExcelMustContainColumns [''id'', ''tyre size'', ''quantity'']
                    [''id'', ''tyre_size'', ''company'', ''series'', ''qty'', ''last_updated''])"
    using missing_column_raises(1)[OF req export_labels_lack_tyre_size[of d]]
    by (simp add: cols required_def)
  show "import_uploaded_file ts (backup_db_to_excel d) d
           = (Inl (ExcelMustContainColumns [''id'', ''tyre size'', ''quantity'']
                    [''id'', ''tyre_size'', ''company'', ''series'', ''qty'', ''last_updated'']), d)"
    using missing_column_raises(2)[OF req export_labels_lack_tyre_size[of d], where ts = ts and d = d]
    by (simp add: cols required_def)
  have rows: "(\<lambda>x. \<lparr>row_id = Some (item_id x), row_tyre_size = tyre_size x,
                         row_company = company x, row_series = series x, row_qty = qty x\<rparr>) = record_row"
    by (simp add: fun_eq_iff record_row_def)
  show "upsert_items_from_df ts
             (map (\<lambda>x. \<lparr>row_id = Some (item_id x), row_tyre_size = tyre_size x,
                         row_company = company x, row_series = series x, row_qty = qty x\<rparr>) (items d)) d =
           \<lparr>items = map (\<lambda>x. x\<lparr>qty := 2 * qty x, last_updated := ts\<rparr>) (items d),
            transactions = transactions d @
              map (\<lambda>x. \<lparr>tx_item_id = item_id x, tx_tyre_size = tyre_size x, tx_company = company x,
                         tx_series = series x, change = qty x, reason = ''import_upsert'',
                         timestamp = ts, tx_note = Some ''import from excel''\<rparr>) (items d)\<rparr>"
    unfolding rows using assms by (rule reimport_rows_double)
qed

theorem export_refused_and_own_rows_double_witness:
  "primary_key two_item_store \<and>
   read_excel_to_df (backup_db_to_excel two_item_store)
     = Inl (ExcelMustContainColumns [''id'', ''tyre size'', ''quantity'']
              [''id'', ''tyre_size'', ''company'', ''series'', ''qty'', ''last_updated'']) \<and>
   upsert_items_from_df ''t1''
     [\<lparr>row_id = Some 1, row_tyre_size = Some ''155 70 R13'', row_company = Some ''Acme'',
       row_series = None, row_qty = 10\<rparr>,
      \<lparr>row_id = Some 4, row_tyre_size = Some ''185 65 R14'', row_company = None,
       row_series = Some ''Eco'', row_qty = 3\<rparr>] two_item_store =
     \<lparr>items = [acme_item\<lparr>qty := 20, last_updated := ''t1''\<rparr>, eco_item\<lparr>qty := 6, last_updated := ''t1''\<rparr>],
      transactions =
        [\<lparr>tx_item_id = 1, tx_tyre_size = Some ''155 70 R13'', tx_company = Some ''Acme'', tx_series = None,
          change = 10, reason = ''import_upsert'', timestamp = ''t1'', tx_note = Some ''import from excel''\<rparr>,
         \<lparr>tx_item_id = 4, tx_tyre_size = Some ''185 65 R14'', tx_company = None, tx_series = Some ''Eco'',
          change = 3, reason = ''import_upsert'', timestamp = ''t1'', tx_note = Some ''import from excel''\<rparr>]\<rparr>"
  using export_refused_and_own_rows_double[where d = two_item_store and ts = "''t1''"]
  by (simp add: primary_key_def two_item_store_def acme_item_def eco_item_def)

text \<open>
  C8 does not hold of the export as the program writes and reads it. The store with the
  one record of quantity 10: importing its export raises the error of the missing
  columns, and the store, with that quantity, is as before.
\<close>

theorem export_reimport_counterexample:
  "import_uploaded_file ''t1'' (backup_db_to_excel acme_store) acme_store
     = (Inl (ExcelMustContainColumns [''id'', ''tyre size'', ''quantity'']
               [''id'', ''tyre_size'', ''company'', ''series'', ''qty'', ''last_updated'']),
        acme_store)
   \<and> map qty (items acme_store) = [10]
   \<and> df_columns (backup_db_to_excel acme_store) = [''id'', ''tyre_size'', ''company'', ''series'', ''qty'', ''last_updated'']"
  by (simp add: import_uploaded_file_def read_excel_to_df_def backup_db_to_excel_def get_items_df_def
      required_def normalize_cols_def py_strip_def py_lower_def lower_char_def is_upper_def is_space_def
      char_of_def bit_0 acme_store_def acme_item_def)

text \<open>
  C7, as the code has it. A frame that lacks one of the required columns: when no column
  label, lower-cased and stripped of surrounding white space, is the required name \<open>q\<close>
  (one of \<open>id\<close>, \<open>tyre size\<close>, \<open>quantity\<close>), \<open>read_excel_to_df\<close> fails with the error that
  lists all three required names, the same list whichever of them is missing, and the
  columns found; the import of the file then stops there and returns the store as it was.
\<close>

theorem read_excel_missing_required_column:
  assumes "q \<in> set required" and "\<forall>c \<in> set (df_columns df). py_strip (py_lower c) \<noteq> q"
  shows "read_excel_to_df df
           = Inl (ExcelMustContainColumns [''id'', ''tyre size'', ''quantity''] (df_columns df))
         \<and> import_uploaded_file ts df d
           = (Inl (ExcelMustContainColumns [''id'', ''tyre size'', ''quantity''] (df_columns df)), d)"
  using missing_column_raises(1)[OF assms] missing_column_raises(2)[OF assms, where ts = ts and d = d]
  by (simp add: required_def)

theorem read_excel_missing_required_column_witness:
  "''tyre size'' \<in> set required
   \<and> py_strip (py_lower ''ID'') \<noteq> ''tyre size''
   \<and> py_strip (py_lower '' Quantity '') \<noteq> ''tyre size''
   \<and> py_strip (py_lower ''Company'') \<noteq> ''tyre size''
   \<and> read_excel_to_df headers_frame
       = Inl (ExcelMustContainColumns [''id'', ''tyre size'', ''quantity''] [''ID'', '' Quantity '', ''Company''])
   \<and> import_uploaded_file ''t1'' headers_frame acme_store
       = (Inl (ExcelMustContainColumns [''id'', ''tyre size'', ''quantity''] [''ID'', '' Quantity '', ''Company'']),
          acme_store)"
  using read_excel_missing_required_column
          [where q = "''tyre size''" and df = headers_frame and ts = "''t1''" and d = acme_store]
  by (simp add: required_def headers_frame_def py_strip_def py_lower_def lower_char_def is_upper_def is_space_def
      char_of_def bit_0)

text \<open>
  C7 does not hold as stated: the error does not name the missing columns. A frame that
  lacks the id column only: the error lists \<open>id\<close>, \<open>tyre size\<close> and \<open>quantity\<close>, of which
  \<open>tyre size\<close> and \<open>quantity\<close> are present.
\<close>

theorem read_excel_error_names_all_required_counterexample:
  "read_excel_to_df no_id_frame
     = Inl (ExcelMustContainColumns [''id'', ''tyre size'', ''quantity''] [''Tyre Size'', ''Quantity''])
   \<and> missing_columns no_id_frame = [''id'']
   \<and> [''id'', ''tyre size'', ''quantity''] \<noteq> missing_columns no_id_frame"
  by (simp add: read_excel_to_df_def missing_columns_def no_id_frame_def required_def normalize_cols_def
      py_strip_def py_lower_def lower_char_def is_upper_def is_space_def char_of_def bit_0)

text \<open>
  C10. No check of the size. Whether \<open>read_excel_to_df\<close> succeeds depends on the
  required columns and on the quantity cells only. When it succeeds it returns one row
  per row of the frame, in order, and a row whose size cell is blank has no size. The
  import of a row without size then writes a record without size: the record under the
  row's identifier, updated or inserted, or, for a row without identifier, a new record
  (a signature without size matches nothing).
\<close>

theorem blank_size_is_not_validated:
  assumes "normalize_cols (df_columns df) ''tyre size'' = Some size_col"
    and "row_tyre_size r = None"
  shows "((\<exists>rs. read_excel_to_df df = Inr rs)
            = (list_all (\<lambda>q. normalize_cols (df_columns df) q \<noteq> None) required \<and> quantity_cells_convert df))
       \<and> (\<forall>rs. read_excel_to_df df = Inr rs \<longrightarrow>
             length rs = length (df_rows df) \<and>
             (\<forall>k < length rs. (df_rows df ! k) size_col = NaN \<longrightarrow> row_tyre_size (rs ! k) = None))
       \<and> (case row_id r of
            Some i \<Rightarrow> (\<exists>x. find (\<lambda>y. item_id y = i) (items (upsert_items_from_df ts [r] d)) = Some x
                          \<and> tyre_size x = None)
          | None \<Rightarrow> upsert_items_from_df ts [r] d =
              \<lparr>items = insert_sorted
                 \<lparr>item_id = next_rowid (items d), tyre_size = None, company = row_company r,
                  series = row_series r, qty = row_qty r, last_updated = ts\<rparr> (items d),
               transactions = transactions d @
                 [\<lparr>tx_item_id = next_rowid (items d), tx_tyre_size = None, tx_company = row_company r,
                   tx_series = row_series r, change = row_qty r, reason = ''import_new'',
                   timestamp = ts, tx_note = Some ''new row from excel''\<rparr>]\<rparr>)"
proof (intro conjI)
  let ?m = "normalize_cols (df_columns df)"
  show "(\<exists>rs. read_excel_to_df df = Inr rs)
            = (list_all (\<lambda>q. ?m q \<noteq> None) required \<and> quantity_cells_convert df)"
  proof (cases "list_all (\<lambda>q. ?m q \<noteq> None) required")
    case False
    then show ?thesis by (simp add: read_excel_to_df_def Let_def)
  next
    case True
    then obtain ic sc qc where c: "?m ''id'' = Some ic" "?m ''tyre size'' = Some sc" "?m ''quantity'' = Some qc"
      unfolding required_present_iff by blast
    show ?thesis
      using True parse_rows_succeeds[OF c, of "df_rows df"]
      by (simp add: read_excel_to_df_def Let_def quantity_cells_convert_def c(3))
  qed
  show "\<forall>rs. read_excel_to_df df = Inr rs \<longrightarrow>
             length rs = length (df_rows df) \<and>
             (\<forall>k < length rs. (df_rows df ! k) size_col = NaN \<longrightarrow> row_tyre_size (rs ! k) = None)"
  proof (intro allI impI)
    fix rs assume ok: "read_excel_to_df df = Inr rs"
    then have present: "list_all (\<lambda>q. ?m q \<noteq> None) required"
      and rows: "parse_rows ?m (df_rows df) = Inr rs"
      by (auto simp: read_excel_to_df_def Let_def split: if_splits)
    from present obtain ic sc qc where c: "?m ''id'' = Some ic" "?m ''tyre size'' = Some sc" "?m ''quantity'' = Some qc"
      unfolding required_present_iff by blast
    have "sc = size_col" using c(2) assms(1) by simp
    then show "length rs = length (df_rows df) \<and>
             (\<forall>k < length rs. (df_rows df ! k) size_col = NaN \<longrightarrow> row_tyre_size (rs ! k) = None)"
      using parse_rows_keeps_rows[OF c rows] by simp
  qed
  show "(case row_id r of
            Some i \<Rightarrow> (\<exists>x. find (\<lambda>y. item_id y = i) (items (upsert_items_from_df ts [r] d)) = Some x
                          \<and> tyre_size x = None)
          | None \<Rightarrow> upsert_items_from_df ts [r] d =
              \<lparr>items = insert_sorted
                 \<lparr>item_id = next_rowid (items d), tyre_size = None, company = row_company r,
                  series = row_series r, qty = row_qty r, last_updated = ts\<rparr> (items d),
               transactions = transactions d @
                 [\<lparr>tx_item_id = next_rowid (items d), tx_tyre_size = None, tx_company = row_company r,
                   tx_series = row_series r, change = row_qty r, reason = ''import_new'',
                   timestamp = ts, tx_note = Some ''new row from excel''\<rparr>]\<rparr>)"
    using assms(2) by (rule upsert_absent_size)
qed

theorem blank_size_is_not_validated_witness:
  "normalize_cols (df_columns blank_size_frame) ''tyre size'' = Some ''Tyre Size''
   \<and> read_excel_to_df blank_size_frame =
       Inr [\<lparr>row_id = Some 7, row_tyre_size = None, row_company = Some ''Acme'', row_series = None,
             row_qty = 4\<rparr>]
   \<and> find (\<lambda>y. item_id y = 7)
        (items (upsert_items_from_df ''t1''
           [\<lparr>row_id = Some 7, row_tyre_size = None, row_company = Some ''Acme'', row_series = None,
             row_qty = 4\<rparr>] acme_store))
       = Some \<lparr>item_id = 7, tyre_size = None, company = Some ''Acme'', series = None, qty = 4,
               last_updated = ''t1''\<rparr>
   \<and> import_uploaded_file ''t1'' blank_size_frame acme_store =
       (Inr (),
        \<lparr>items = [acme_item,
                  \<lparr>item_id = 7, tyre_size = None, company = Some ''Acme'', series = None, qty = 4,
                   last_updated = ''t1''\<rparr>],
         transactions =
           [\<lparr>tx_item_id = 7, tx_tyre_size = None, tx_company = Some ''Acme'', tx_series = None,
             change = 4, reason = ''import_upsert'', timestamp = ''t1'',
             tx_note = Some ''import from excel''\<rparr>]\<rparr>)"
proof -
  have cols: "normalize_cols (df_columns blank_size_frame) ''tyre size'' = Some ''Tyre Size''"
    by (simp add: normalize_cols_def blank_size_frame_def py_strip_def py_lower_def lower_char_def is_upper_def
        is_space_def char_of_def bit_0)
  have rd: "read_excel_to_df blank_size_frame =
       Inr [\<lparr>row_id = Some 7, row_tyre_size = None, row_company = Some ''Acme'', row_series = None,
             row_qty = 4\<rparr>]"
    by (simp add: read_excel_to_df_def blank_size_frame_def required_def normalize_cols_def
      py_strip_def py_lower_def lower_char_def is_upper_def is_space_def char_of_def bit_0 parse_row_def optional_text_def
      notna_def py_int_def py_str_def int_of_string_def parse_unsigned_def is_digit_def digit_val_def)
  have up: "upsert_items_from_df ''t1''
           [\<lparr>row_id = Some 7, row_tyre_size = None, row_company = Some ''Acme'', row_series = None,
             row_qty = 4\<rparr>] acme_store =
        \<lparr>items = [acme_item,
                  \<lparr>item_id = 7, tyre_size = None, company = Some ''Acme'', series = None, qty = 4,
                   last_updated = ''t1''\<rparr>],
         transactions =
           [\<lparr>tx_item_id = 7, tx_tyre_size = None, tx_company = Some ''Acme'', tx_series = None,
             change = 4, reason = ''import_upsert'', timestamp = ''t1'',
             tx_note = Some ''import from excel''\<rparr>]\<rparr>"
    by (simp add: upsert_single upsert_row_with_id_def conn_defs acme_store_def acme_item_def)
  have imp: "import_uploaded_file ''t1'' blank_size_frame acme_store =
       (Inr (), upsert_items_from_df ''t1''
           [\<lparr>row_id = Some 7, row_tyre_size = None, row_company = Some ''Acme'', row_series = None,
             row_qty = 4\<rparr>] acme_store)"
    by (simp add: import_uploaded_file_def rd)
  from blank_size_is_not_validated
         [OF cols, where ts = "''t1''" and d = acme_store
            and r = "\<lparr>row_id = Some 7, row_tyre_size = None, row_company = Some ''Acme'',
                       row_series = None, row_qty = 4\<rparr>"]
  have "\<exists>x. find (\<lambda>y. item_id y = 7)
        (items (upsert_items_from_df ''t1''
           [\<lparr>row_id = Some 7, row_tyre_size = None, row_company = Some ''Acme'', row_series = None,
             row_qty = 4\<rparr>] acme_store)) = Some x \<and> tyre_size x = None"
    by simp
  then have fd: "find (\<lambda>y. item_id y = 7)
        (items (upsert_items_from_df ''t1''
           [\<lparr>row_id = Some 7, row_tyre_size = None, row_company = Some ''Acme'', row_series = None,
             row_qty = 4\<rparr>] acme_store))
       = Some \<lparr>item_id = 7, tyre_size = None, company = Some ''Acme'', series = None, qty = 4,
               last_updated = ''t1''\<rparr>"
    unfolding up by (simp add: acme_item_def)
  show ?thesis
    using cols rd fd imp unfolding up by simp
qed

end
